theory Spec2Isabelle
  imports Complex_Main "HOL-Library.AList" "HOL-Library.List_Lexorder" "HOL-Library.Sublist"
    "HOL-Library.Multiset"
begin

section \<open>Python values\<close>

text \<open>
  A Python \<open>str\<close> is a sequence of Unicode code points; \<open>len\<close>, \<open>in\<close>, \<open>split\<close>,
  \<open>strip\<close> and the comparison operators all work on code points. A string is therefore a
  list of code points, and every literal of \<open>main.py\<close> is written as the list of its code
  points in hexadecimal. With \<open>List_Lexorder\<close> the order on such lists is the lexicographic
  one in which a proper prefix is smaller, which is how Python compares two \<open>str\<close>.
\<close>

type_synonym pystr = "nat list"

text \<open>A literal of ASCII characters only is written as text.\<close>

definition ascii :: "string \<Rightarrow> pystr" where
  "ascii s = map of_char s"

text \<open>The exceptions that the modelled code can raise.\<close>

datatype py_error = KeyError | IndexError

text \<open>
  A \<open>dict\<close> keeps its keys in insertion order. It is an association list: \<open>d[k] = v\<close> is
  \<open>AList.update k v d\<close> (overwrite in place, or append a new key at the end), \<open>k in d\<close> is
  \<open>map_of d k \<noteq> None\<close>, and \<open>d.get(k, default)\<close> is \<open>dict_get\<close>.
\<close>

definition dict_get :: "('k \<times> 'v) list \<Rightarrow> 'k \<Rightarrow> 'v \<Rightarrow> 'v" where
  "dict_get d k dflt = (case map_of d k of None \<Rightarrow> dflt | Some v \<Rightarrow> v)"

text \<open>
  \<open>str.isspace\<close> for one code point: the white space table of CPython
  (U+0009..U+000D, U+001C..U+0020, U+0085, U+00A0, U+1680, U+2000..U+200A, U+2028, U+2029,
  U+202F, U+205F, U+3000). \<open>s.strip()\<close> removes the white space at both ends.
\<close>

definition isspace :: "nat \<Rightarrow> bool" where
  "isspace c \<longleftrightarrow>
     (0x09 \<le> c \<and> c \<le> 0x0D) \<or> (0x1C \<le> c \<and> c \<le> 0x20) \<or> c = 0x85 \<or> c = 0xA0 \<or> c = 0x1680 \<or>
     (0x2000 \<le> c \<and> c \<le> 0x200A) \<or> c = 0x2028 \<or> c = 0x2029 \<or> c = 0x202F \<or> c = 0x205F \<or>
     c = 0x3000"

definition py_strip :: "pystr \<Rightarrow> pystr" where
  "py_strip s = rev (dropWhile isspace (rev (dropWhile isspace s)))"

text \<open>
  \<open>s.split(sep)\<close> for a separator of one code point (the code splits at \<open>"|"\<close> and at
  \<open>","\<close> only). The result always has at least one part.
\<close>

fun py_split :: "nat \<Rightarrow> pystr \<Rightarrow> pystr list" where
  "py_split sep [] = [[]]"
| "py_split sep (c # cs) =
     (if c = sep then [] # py_split sep cs
      else (case py_split sep cs of [] \<Rightarrow> [[c]] | p # ps \<Rightarrow> (c # p) # ps))"

text \<open>\<open>s in t\<close> on two strings: \<open>s\<close> occurs in \<open>t\<close> as a contiguous run.\<close>

fun py_in :: "pystr \<Rightarrow> pystr \<Rightarrow> bool" where
  "py_in s [] = (s = [])"
| "py_in s (c # cs) = (prefix s (c # cs) \<or> py_in s cs)"

text \<open>\<open>xs[:limit]\<close>: a negative limit counts from the end.\<close>

definition py_slice_to :: "int \<Rightarrow> 'a list \<Rightarrow> 'a list" where
  "py_slice_to limit xs =
     (if 0 \<le> limit then take (nat limit) xs else take (length xs - nat (- limit)) xs)"

text \<open>
  \<open>sorted(xs, key=f, reverse=True)\<close>. The sort of CPython is stable also when reversed: it
  reverses the list, sorts it stably in ascending order and reverses the result, so that
  elements with equal keys keep the order they had in \<open>xs\<close>. \<open>sort_key\<close> is a stable
  insertion sort.
\<close>

definition py_sorted_reverse :: "('a \<Rightarrow> 'k::linorder) \<Rightarrow> 'a list \<Rightarrow> 'a list" where
  "py_sorted_reverse f xs = rev (sort_key f (rev xs))"

text \<open>
  \<open>max(x, *xs, key=f)\<close> walks the items from left to right and replaces the candidate only
  by an item whose key is strictly greater, so the first item with the greatest key wins.
\<close>

definition py_max_key :: "('a \<Rightarrow> 'k::linorder) \<Rightarrow> 'a \<Rightarrow> 'a list \<Rightarrow> 'a" where
  "py_max_key f x xs = foldl (\<lambda>best y. if f best < f y then y else best) x xs"

section \<open>The reference table\<close>

text \<open>
  One value of \<open>TONGUE_DATABASE\<close>. The keys of the Python dict are Chinese; the fields carry
  their transliteration: \<open>tizhi\<close> (U+9AD4 U+8CEA, the constitution), \<open>zhengzhuang\<close>
  (U+75C7 U+72C0, the symptoms), \<open>jianyi\<close> (U+5EFA U+8B70, the advice), \<open>shiliao\<close>
  (U+98DF U+7642, the food remedies), \<open>jinji\<close> (U+7981 U+5FCC, what to avoid) and
  \<open>zhongyi_lilun\<close> (U+4E2D U+91AB U+7406 U+8AD6, the theory).
\<close>

record tongue_info =
  tizhi :: pystr
  zhengzhuang :: "pystr list"
  jianyi :: pystr
  shiliao :: "pystr list"
  jinji :: "pystr list"
  zhongyi_lilun :: pystr

text \<open>The seven keys of the table, in the order of the source, and their values.\<close>

definition key_red_dots :: pystr where
  "key_red_dots = [0x820C, 0x982D, 0x6709, 0x7D05, 0x9EDE]"

definition key_red_tip_and_sides :: pystr where
  "key_red_tip_and_sides = [0x820C, 0x5C16, 0x53CA, 0x5074, 0x908A, 0x767C, 0x7D05]"

definition key_teeth_marks :: pystr where
  "key_teeth_marks = [0x820C, 0x982D, 0x6709, 0x9F52, 0x75D5]"

definition key_fissures :: pystr where
  "key_fissures = [0x820C, 0x982D, 0x6709, 0x6E9D, 0x75D5]"

definition key_thick_yellow_coating :: pystr where
  "key_thick_yellow_coating = [0x820C, 0x82D4, 0x9EC3, 0x539A]"

definition key_thick_white_coating :: pystr where
  "key_thick_white_coating = [0x820C, 0x82D4, 0x767D, 0x539A]"

definition key_pale_red_thin_white :: pystr where
  "key_pale_red_thin_white = [0x6DE1, 0x7D05, 0x8272, 0x820C, 0x4E14, 0x820C, 0x82D4, 0x6DFA, 0x767D]"

definition info_red_dots :: tongue_info where
  "info_red_dots =
     \<lparr>tizhi = [0x5167, 0x71B1, 0x904E, 0x76DB],
       zhengzhuang = [[0x53E3, 0x4E7E], [0x7169, 0x8E81], [0x5931, 0x7720]],
       jianyi = [0x6E05, 0x71B1, 0x964D, 0x706B, 0xFF0C, 0x907F, 0x514D, 0x8F9B, 0x8FA3, 0x98DF,
        0x7269],
       shiliao = [[0x83CA, 0x82B1, 0x8336], [0x84EE, 0x5B50, 0x5FC3, 0x8336], [0x7DA0, 0x8C46,
        0x6E6F]],
       jinji = [[0x8F9B, 0x8FA3], [0x6CB9, 0x70B8], [0x71D2, 0x70E4]],
       zhongyi_lilun = [0x820C, 0x8D77, 0x7D05, 0x9EDE, 0x591A, 0x70BA, 0x5FC3, 0x706B, 0x4E0A,
        0x708E, 0x6216, 0x80C3, 0x71B1, 0x71BE, 0x76DB, 0x4E4B, 0x8C61]\<rparr>"

definition info_red_tip_and_sides :: tongue_info where
  "info_red_tip_and_sides =
     \<lparr>tizhi = [0x809D, 0x6C23, 0x9B31, 0x7D50],
       zhengzhuang = [[0x60C5, 0x7DD2, 0x4E0D, 0x7A69], [0x8105, 0x75DB], [0x6708, 0x7D93,
        0x4E0D, 0x8ABF]],
       jianyi = [0x758F, 0x809D, 0x7406, 0x6C23, 0xFF0C, 0x4FDD, 0x6301, 0x5FC3, 0x60C5, 0x6109,
        0x5FEB],
       shiliao = [[0x73AB, 0x7470, 0x82B1, 0x8336], [0x9673, 0x76AE, 0x8336], [0x67F4, 0x80E1,
        0x758F, 0x809D, 0x6563]],
       jinji = [[0x904E, 0x5EA6, 0x52DE, 0x7D2F], [0x60C5, 0x7DD2, 0x6FC0, 0x52D5]],
       zhongyi_lilun = [0x820C, 0x908A, 0x5C16, 0x7D05, 0x70BA, 0x809D, 0x81BD, 0x706B, 0x65FA,
        0xFF0C, 0x60C5, 0x5FD7, 0x4E0D, 0x9042, 0x6240, 0x81F4]\<rparr>"

definition info_teeth_marks :: tongue_info where
  "info_teeth_marks =
     \<lparr>tizhi = [0x813E, 0x865B, 0x6FD5, 0x91CD],
       zhengzhuang = [[0x75B2, 0x52DE], [0x8179, 0x8139], [0x5927, 0x4FBF, 0x6E8F, 0x8584]],
       jianyi = [0x5065, 0x813E, 0x795B, 0x6FD5, 0xFF0C, 0x9069, 0x91CF, 0x904B, 0x52D5],
       shiliao = [[0x56DB, 0x795E, 0x6E6F], [0x858F, 0x4EC1, 0x6C34], [0x832F, 0x82D3, 0x9905]],
       jinji = [[0x751F, 0x51B7, 0x98DF, 0x7269], [0x751C, 0x81A9, 0x98DF, 0x7269]],
       zhongyi_lilun = [0x820C, 0x908A, 0x6709, 0x9F52, 0x75D5, 0x4E43, 0x813E, 0x6C23, 0x865B,
        0x5F31, 0xFF0C, 0x820C, 0x9AD4, 0x80D6, 0x5AE9, 0x6240, 0x81F4]\<rparr>"

definition info_fissures :: tongue_info where
  "info_fissures =
     \<lparr>tizhi = [0x813E, 0x80C3, 0x865B, 0x5F31],
       zhengzhuang = [[0x98DF, 0x617E, 0x4E0D, 0x632F], [0x6D88, 0x5316, 0x4E0D, 0x826F],
        [0x9762, 0x8272, 0x840E, 0x9EC3]],
       jianyi = [0x5065, 0x813E, 0x990A, 0x80C3, 0xFF0C, 0x898F, 0x5F8B, 0x98F2, 0x98DF],
       shiliao = [[0x5C71, 0x85E5, 0x7CA5], [0x84EE, 0x5B50, 0x6E6F], [0x767D, 0x672E, 0x8336]],
       jinji = [[0x904E, 0x98FD, 0x904E, 0x9913], [0x51B0, 0x51B7, 0x98F2, 0x54C1]],
       zhongyi_lilun = [0x820C, 0x6709, 0x88C2, 0x7D0B, 0x591A, 0x70BA, 0x9670, 0x865B, 0x6216,
        0x813E, 0x80C3, 0x6C23, 0x865B, 0xFF0C, 0x6D25, 0x6DB2, 0x4E0D, 0x8DB3]\<rparr>"

definition info_thick_yellow_coating :: tongue_info where
  "info_thick_yellow_coating =
     \<lparr>tizhi = [0x6FD5, 0x71B1, 0x9AD4, 0x8CEA],
       zhengzhuang = [[0x53E3, 0x82E6], [0x5C0F, 0x4FBF, 0x9EC3], [0x5927, 0x4FBF, 0x9ECF,
        0x81A9]],
       jianyi = [0x6E05, 0x71B1, 0x5229, 0x6FD5, 0xFF0C, 0x98F2, 0x98DF, 0x6E05, 0x6DE1],
       shiliao = [[0x8335, 0x9673, 0x84BF, 0x8336], [0x7DA0, 0x8C46, 0x858F, 0x4EC1, 0x6E6F],
        [0x51AC, 0x74DC, 0x6E6F]],
       jinji = [[0x6CB9, 0x81A9, 0x98DF, 0x7269], [0x9152, 0x985E], [0x751C, 0x98DF]],
       zhongyi_lilun = [0x82D4, 0x9EC3, 0x800C, 0x539A, 0x70BA, 0x80C3, 0x8178, 0x7A4D, 0x71B1,
        0xFF0C, 0x6FD5, 0x71B1, 0x5167, 0x860A, 0x4E4B, 0x8C61]\<rparr>"

definition info_thick_white_coating :: tongue_info where
  "info_thick_white_coating =
     \<lparr>tizhi = [0x5BD2, 0x6FD5, 0x9AD4, 0x8CEA],
       zhengzhuang = [[0x754F, 0x5BD2], [0x8179, 0x8139], [0x5927, 0x4FBF, 0x6E8F, 0x8584]],
       jianyi = [0x6EAB, 0x967D, 0x5316, 0x6FD5, 0xFF0C, 0x907F, 0x514D, 0x751F, 0x51B7],
       shiliao = [[0x751F, 0x8591, 0x8336], [0x8089, 0x6842, 0x8336], [0x9644, 0x5B50, 0x7406,
        0x4E2D, 0x6E6F]],
       jinji = [[0x751F, 0x51B7, 0x98DF, 0x7269], [0x5BD2, 0x6DBC, 0x6C34, 0x679C]],
       zhongyi_lilun = [0x82D4, 0x767D, 0x800C, 0x539A, 0x70BA, 0x5BD2, 0x6FD5, 0x5167, 0x76DB,
        0xFF0C, 0x813E, 0x967D, 0x4E0D, 0x632F, 0x4E4B, 0x8B49]\<rparr>"

definition info_pale_red_thin_white :: tongue_info where
  "info_pale_red_thin_white =
     \<lparr>tizhi = [0x5065, 0x5EB7, 0x820C, 0x76F8],
       zhengzhuang = [[0x7121, 0x660E, 0x986F, 0x4E0D, 0x9069]],
       jianyi = [0x4FDD, 0x6301, 0x73FE, 0x72C0, 0xFF0C, 0x9810, 0x9632, 0x70BA, 0x4E3B],
       shiliao = [[0x5747, 0x8861, 0x98F2, 0x98DF], [0x9069, 0x91CF, 0x904B, 0x52D5]],
       jinji = [[0x904E, 0x5EA6, 0x9032, 0x88DC]],
       zhongyi_lilun = [0x820C, 0x6DE1, 0x7D05, 0x82D4, 0x8584, 0x767D, 0x70BA, 0x6B63, 0x5E38,
        0x820C, 0x8C61, 0xFF0C, 0x6C23, 0x8840, 0x8ABF, 0x548C, 0x4E4B, 0x5FB5]\<rparr>"

definition TONGUE_DATABASE :: "(pystr \<times> tongue_info) list" where
  "TONGUE_DATABASE =
     [(key_red_dots, info_red_dots),
      (key_red_tip_and_sides, info_red_tip_and_sides),
      (key_teeth_marks, info_teeth_marks),
      (key_fissures, info_fissures),
      (key_thick_yellow_coating, info_thick_yellow_coating),
      (key_thick_white_coating, info_thick_white_coating),
      (key_pale_red_thin_white, info_pale_red_thin_white)]"

definition CITY_NAME_MAP :: "(pystr \<times> pystr) list" where
  "CITY_NAME_MAP =
     [([0x53F0, 0x5317], ascii ''Taipei''),
      ([0x81FA, 0x5317], ascii ''Taipei''),
      ([0x65B0, 0x5317], ascii ''New Taipei''),
      ([0x53F0, 0x4E2D], ascii ''Taichung''),
      ([0x81FA, 0x4E2D], ascii ''Taichung''),
      ([0x53F0, 0x5357], ascii ''Tainan''),
      ([0x81FA, 0x5357], ascii ''Tainan''),
      ([0x9AD8, 0x96C4], ascii ''Kaohsiung''),
      ([0x57FA, 0x9686], ascii ''Keelung''),
      ([0x6843, 0x5712], ascii ''Taoyuan''),
      ([0x65B0, 0x7AF9], ascii ''Hsinchu''),
      ([0x5609, 0x7FA9], ascii ''Chiayi''),
      ([0x5C4F, 0x6771], ascii ''Pingtung''),
      ([0x5B9C, 0x862D], ascii ''Yilan''),
      ([0x82B1, 0x84EE], ascii ''Hualien''),
      ([0x53F0, 0x6771], ascii ''Taitung''),
      ([0x81FA, 0x6771], ascii ''Taitung''),
      ([0x5357, 0x6295], ascii ''Nantou''),
      ([0x5F70, 0x5316], ascii ''Changhua''),
      ([0x96F2, 0x6797], ascii ''Yunlin''),
      ([0x82D7, 0x6817], ascii ''Miaoli''),
      ([0x6F8E, 0x6E56], ascii ''Penghu''),
      ([0x91D1, 0x9580], ascii ''Kinmen''),
      ([0x9023, 0x6C5F], ascii ''Lienchiang'')]"

section \<open>The user store\<close>

text \<open>One element of a user's \<open>tongue_records\<close>.\<close>

record tongue_record =
  record_id :: pystr
  date :: pystr
  tongue_type :: pystr
  constitution :: pystr
  symptoms :: "pystr list"
  weather_info :: pystr

text \<open>
  One value of \<open>self.users\<close>. Every key that \<open>create_user\<close> writes is a field, so a user
  document read from a file that lacks one of them is outside this model.
\<close>

record user =
  name :: pystr
  age :: int
  gender :: pystr
  created_at :: pystr
  tongue_records :: "tongue_record list"
  constitution_trends :: "(pystr \<times> int) list"
  preferences :: "(pystr \<times> pystr) list"

text \<open>
  \<open>UserHealthManager\<close>: the dict \<open>users\<close>, and \<open>saved\<close>, the log of the snapshots that
  \<open>save_data\<close> was asked to write, oldest first. Whether a write reached the file is not
  modelled: \<open>save_data\<close> catches every exception and never changes \<open>users\<close>.
\<close>

record manager =
  users :: "(pystr \<times> user) list"
  saved :: "(pystr \<times> user) list list"

text \<open>
  What one call of \<open>add_tongue_record\<close> reads from outside the program: the fresh
  \<open>uuid.uuid4()\<close> as text, and the three readings of \<open>datetime.datetime.now()\<close>, namely
  \<open>isoformat()\<close> in \<open>create_user\<close> (used only when the user is new), \<open>isoformat()\<close> for
  the record's date, and \<open>strftime('%Y-%m-%d %H:%M')\<close> for the note.
\<close>

record ambient =
  uuid4 :: pystr
  now_created :: pystr
  now_date :: pystr
  now_info :: pystr

definition save_data :: "manager \<Rightarrow> manager" where
  "save_data m = m\<lparr>saved := saved m @ [users m]\<rparr>"

definition create_user :: "pystr \<Rightarrow> pystr \<Rightarrow> pystr \<Rightarrow> int \<Rightarrow> pystr \<Rightarrow> manager \<Rightarrow> bool \<times> manager" where
  "create_user now user_id name' age' gender' m =
     (if map_of (users m) user_id = None
      then (True,
            save_data (m\<lparr>users := AList.update user_id
              \<lparr>name = name', age = age', gender = gender', created_at = now,
               tongue_records = [], constitution_trends = [], preferences = []\<rparr> (users m)\<rparr>))
      else (False, m))"

text \<open>
  \<open>self.users[user_id]\<close> raises \<open>KeyError\<close> for an unknown id; the \<open>setdefault\<close> finds the
  key \<open>constitution_trends\<close> that every modelled user has.
\<close>

definition update_constitution_trends :: "pystr \<Rightarrow> pystr \<Rightarrow> manager \<Rightarrow> py_error + manager" where
  "update_constitution_trends user_id constitution' m =
     (case map_of (users m) user_id of
        None \<Rightarrow> Inl KeyError
      | Some u \<Rightarrow>
          (let trends = constitution_trends u;
               trends' = AList.update constitution' (dict_get trends constitution' 0 + 1) trends
           in Inr (m\<lparr>users := AList.map_entry user_id
                                (\<lambda>u. u\<lparr>constitution_trends := trends'\<rparr>) (users m)\<rparr>)))"

text \<open>U+8A18 U+9304 U+6642 U+9593, a colon and a space: the prefix of \<open>weather_info\<close>.\<close>

definition record_time_prefix :: pystr where
  "record_time_prefix = [0x8A18, 0x9304, 0x6642, 0x9593, 0x003A, 0x0020]"

text \<open>
  The dict \<open>record\<close> that \<open>add_tongue_record\<close> builds; \<open>symptoms or []\<close> is the list
  given, or the empty list.
\<close>

definition new_record :: "ambient \<Rightarrow> pystr \<Rightarrow> pystr \<Rightarrow> pystr list option \<Rightarrow> tongue_record" where
  "new_record env tongue_type' constitution' symptoms' =
     \<lparr>record_id = uuid4 env, date = now_date env, tongue_type = tongue_type',
      constitution = constitution',
      symptoms = (case symptoms' of None \<Rightarrow> [] | Some ss \<Rightarrow> ss),
      weather_info = record_time_prefix @ now_info env\<rparr>"

definition add_tongue_record ::
  "ambient \<Rightarrow> pystr \<Rightarrow> pystr \<Rightarrow> pystr \<Rightarrow> pystr list option \<Rightarrow> manager \<Rightarrow> py_error + pystr \<times> manager" where
  "add_tongue_record env user_id tongue_type' constitution' symptoms' m =
     (let m1 = (if map_of (users m) user_id = None
                then snd (create_user (now_created env) user_id [] 0 [] m) else m);
          record = new_record env tongue_type' constitution' symptoms'
      in case map_of (users m1) user_id of
           None \<Rightarrow> Inl KeyError
         | Some _ \<Rightarrow>
             (let m2 = m1\<lparr>users := AList.map_entry user_id
                          (\<lambda>u. u\<lparr>tongue_records := tongue_records u @ [record]\<rparr>) (users m1)\<rparr>
              in case update_constitution_trends user_id constitution' m2 of
                   Inl e \<Rightarrow> Inl e
                 | Inr m3 \<Rightarrow> Inr (record_id record, save_data m3)))"

definition get_user_history :: "pystr \<Rightarrow> int \<Rightarrow> manager \<Rightarrow> tongue_record list" where
  "get_user_history user_id limit m =
     (case map_of (users m) user_id of
        Some u \<Rightarrow> py_slice_to limit (py_sorted_reverse date (tongue_records u))
      | None \<Rightarrow> [])"

text \<open>
  The three dicts that \<open>get_constitution_analysis\<close> returns: \<open>{"error": ...}\<close>,
  \<open>{"message": ...}\<close>, and the analysis proper.
\<close>

record analysis =
  recent_constitution :: pystr
  most_common_constitution :: pystr
  constitution_frequency :: "(pystr \<times> int) list"
  recent_trend :: "pystr list"
  total_records :: int

datatype analysis_result = Error pystr | Message pystr | Analysis analysis

text \<open>
  The texts U+7528 U+6236 U+4E0D U+5B58 U+5728 (the user does not exist),
  U+66AB U+7121 U+8A18 U+9304 U+53EF U+4F9B U+5206 U+6790 (no record to analyse yet) and
  U+672A U+77E5 (unknown).
\<close>

definition user_missing_text :: pystr where
  "user_missing_text = [0x7528, 0x6236, 0x4E0D, 0x5B58, 0x5728]"

definition no_records_text :: pystr where
  "no_records_text = [0x66AB, 0x7121, 0x8A18, 0x9304, 0x53EF, 0x4F9B, 0x5206, 0x6790]"

definition unknown_text :: pystr where
  "unknown_text = [0x672A, 0x77E5]"

text \<open>
  \<open>records[-1]\<close> is read only after \<open>if not records\<close> has returned, and \<open>max\<close> only when
  \<open>trends\<close> is not empty; \<open>records[-5:]\<close> is the last five records, or all of them.
\<close>

definition get_constitution_analysis :: "pystr \<Rightarrow> manager \<Rightarrow> analysis_result" where
  "get_constitution_analysis user_id m =
     (case map_of (users m) user_id of
        None \<Rightarrow> Error user_missing_text
      | Some u \<Rightarrow>
          (let trends = constitution_trends u;
               records = tongue_records u
           in if records = [] then Message no_records_text
              else
                (let recent_constitution' = constitution (last records);
                     most_common = (case trends of
                                      [] \<Rightarrow> (unknown_text, 0)
                                    | item # items \<Rightarrow> py_max_key snd item items);
                     recent_records = drop (length records - 5) records;
                     constitutions = map constitution recent_records
                 in Analysis \<lparr>recent_constitution = recent_constitution',
                              most_common_constitution = fst most_common,
                              constitution_frequency = trends,
                              recent_trend = constitutions,
                              total_records = int (length records)\<rparr>)))"

text \<open>
  A run of the store as the claims speak of it: a list of \<open>add_tongue_record\<close> calls, each
  with the user id, the values read from outside and the three arguments, applied one after
  the other; and the stores that the program reaches from the empty store of a first start
  (\<open>load_data\<close> finds no file) by \<open>create_user\<close> and \<open>add_tongue_record\<close>.
\<close>

type_synonym call = "pystr \<times> ambient \<times> pystr \<times> pystr \<times> pystr list option"

fun add_records :: "call list \<Rightarrow> manager \<Rightarrow> py_error + manager" where
  "add_records [] m = Inr m"
| "add_records ((user_id, env, tongue_type', constitution', symptoms') # calls) m =
     (case add_tongue_record env user_id tongue_type' constitution' symptoms' m of
        Inl e \<Rightarrow> Inl e
      | Inr (_, m') \<Rightarrow> add_records calls m')"

fun record_of :: "call \<Rightarrow> tongue_record" where
  "record_of (user_id, env, tongue_type', constitution', symptoms') =
     new_record env tongue_type' constitution' symptoms'"

inductive reachable :: "manager \<Rightarrow> bool" where
  start: "reachable \<lparr>users = [], saved = []\<rparr>"
| created: "reachable m \<Longrightarrow> reachable (snd (create_user now user_id name' age' gender' m))"
| added: "reachable m \<Longrightarrow>
          add_tongue_record env user_id tongue_type' constitution' symptoms' m = Inr (rid, m') \<Longrightarrow>
          reachable m'"

text \<open>
  What the store holds for a user id, read for any id: the records and the frequency map of
  the user, both empty for an id that the store does not know.
\<close>

definition records_of :: "manager \<Rightarrow> pystr \<Rightarrow> tongue_record list" where
  "records_of m user_id = (case map_of (users m) user_id of None \<Rightarrow> [] | Some u \<Rightarrow> tongue_records u)"

definition trends_of :: "manager \<Rightarrow> pystr \<Rightarrow> (pystr \<times> int) list" where
  "trends_of m user_id =
     (case map_of (users m) user_id of None \<Rightarrow> [] | Some u \<Rightarrow> constitution_trends u)"

section \<open>The tools\<close>

text \<open>
  Every tool reads the global \<open>current_user_id\<close>; it is the first argument after the
  values read from outside. The tools return text. The model returns what the text is built
  from: one constructor for each \<open>return\<close> of the source, carrying every value that the
  returned f-string interpolates, so that the fixed prose between them is left out.
\<close>

text \<open>
  The three results of \<open>enhanced_tongue_analysis\<close>: the format error with
  \<open>available_types\<close>; the unknown type with \<open>tongue_type\<close> and \<open>available_types\<close>; the
  analysis with \<open>record_id[:8]\<close>, \<open>tongue_type\<close>, \<open>tongue_info\<close> (all six of its fields
  are printed) and, when \<open>symptoms\<close> is not empty, \<open>matched_symptoms\<close> and
  \<open>unmatched_symptoms\<close>. \<open>Raised\<close> stands for an exception leaving the function.
\<close>

datatype reply =
    Format_error "pystr list"
  | Not_listed pystr "pystr list"
  | Analysis_text pystr pystr tongue_info "(pystr list \<times> pystr list) option"
  | Raised py_error

text \<open>
  U+007C is the separator \<open>|\<close> and U+002C the comma. \<open>parse_input\<close> is the three
  assignments to \<open>parts\<close>, \<open>tongue_type\<close> and \<open>symptoms\<close>: the symptoms are read from
  \<open>parts[1]\<close> alone, and only when it exists and is not empty.
\<close>

definition parse_input :: "pystr \<Rightarrow> py_error + pystr \<times> pystr list" where
  "parse_input input_str =
     (case py_split 0x7C input_str of
        [] \<Rightarrow> Inl IndexError
      | p0 # rest \<Rightarrow>
          Inr (py_strip p0,
               (case rest of
                  [] \<Rightarrow> []
                | p1 # _ \<Rightarrow> if p1 \<noteq> [] then map py_strip (py_split 0x2C p1) else [])))"

text \<open>
  The test of the two list comprehensions:
  \<open>any(s in expected for expected in tongue_info[zhengzhuang])\<close>.
\<close>

definition matches_profile :: "tongue_info \<Rightarrow> pystr \<Rightarrow> bool" where
  "matches_profile tongue_info s = list_ex (\<lambda>expected. py_in s expected) (zhengzhuang tongue_info)"

definition enhanced_tongue_analysis :: "ambient \<Rightarrow> pystr \<Rightarrow> pystr \<Rightarrow> manager \<Rightarrow> reply \<times> manager" where
  "enhanced_tongue_analysis env current_user_id input_str m =
     (if input_str = [] \<or> (0x7C \<notin> set input_str \<and> map_of TONGUE_DATABASE input_str = None)
      then (Format_error (map fst TONGUE_DATABASE), m)
      else
        (case parse_input input_str of
           Inl e \<Rightarrow> (Raised e, m)
         | Inr (tongue_type', symptoms') \<Rightarrow>
             (case map_of TONGUE_DATABASE tongue_type' of
                None \<Rightarrow> (Not_listed tongue_type' (map fst TONGUE_DATABASE), m)
              | Some tongue_info \<Rightarrow>
                  (case add_tongue_record env current_user_id tongue_type' (tizhi tongue_info)
                          (Some symptoms') m of
                     Inl e \<Rightarrow> (Raised e, m)
                   | Inr (record_id', m') \<Rightarrow>
                       (let matched_symptoms = filter (matches_profile tongue_info) symptoms';
                            unmatched_symptoms =
                              filter (\<lambda>s. \<not> matches_profile tongue_info s) symptoms'
                        in (Analysis_text (take 8 record_id') tongue_type' tongue_info
                              (if symptoms' \<noteq> [] then Some (matched_symptoms, unmatched_symptoms)
                               else None),
                            m'))))))"

text \<open>
  \<open>get_user_history_formatted\<close> returns a fixed text (U+1F4ED, a space,
  U+66AB U+7121 U+6B77 U+53F2 U+8A18 U+9304: no history yet) for an empty history, and else
  one numbered line for each record, \<open>enumerate(history, 1)\<close>.
\<close>

definition no_history_text :: pystr where
  "no_history_text = [0x1F4ED, 0x0020, 0x66AB, 0x7121, 0x6B77, 0x53F2, 0x8A18, 0x9304]"

datatype history_text = No_history pystr | History_lines "(nat \<times> tongue_record) list"

definition get_user_history_formatted :: "pystr \<Rightarrow> manager \<Rightarrow> history_text" where
  "get_user_history_formatted current_user_id m =
     (let history = get_user_history current_user_id 10 m
      in if history = [] then No_history no_history_text
         else History_lines (zip [1 ..< Suc (length history)] history))"

text \<open>
  The answer of the weather service as \<open>weather_constitution_advice\<close> reads it:
  \<open>res.get("cod")\<close>, \<open>res.get("message")\<close>, \<open>res['main']['humidity']\<close>,
  \<open>res['main']['temp']\<close> and \<open>res['weather'][0]['description']\<close>. The dict
  \<open>{"error": ...}\<close> of a failed request has neither \<open>cod\<close> nor \<open>message\<close>. The temperature
  is a JSON number, compared with the integers 30 and 15 only.
\<close>

record weather =
  cod :: "int option"
  message :: "pystr option"
  humidity :: int
  temp :: rat
  description :: pystr

text \<open>
  The pieces that \<open>weather_constitution_advice\<close> appends to \<open>weather_advice\<close>, one
  constructor for each \<open>+=\<close> of the source, in the order of the source: the title; the line
  with place, temperature, humidity, sky and constitution; the note on theory; the block on
  dampness (it prints the humidity); the clause for the constitution U+813E U+865B U+6FD5 U+91CD
  (spleen deficiency with dampness); the clause for U+6FD5 U+71B1 U+9AD4 U+8CEA (damp heat);
  the block on summer heat and the block on cold (both print the temperature); the closing
  line.
\<close>

datatype advice_block =
    Title
  | Conditions pystr rat int pystr pystr
  | Theory_note
  | Dampness_block int
  | Spleen_dampness_clause
  | Damp_heat_clause
  | Heat_block rat
  | Cold_block rat
  | Closing

datatype weather_reply = Missing_api_key | Lookup_failed pystr | Weather_advice "advice_block list"

definition spleen_dampness :: pystr where
  "spleen_dampness = [0x813E, 0x865B, 0x6FD5, 0x91CD]"

definition damp_heat :: pystr where
  "damp_heat = [0x6FD5, 0x71B1, 0x9AD4, 0x8CEA]"

text \<open>U+672A U+77E5 U+932F U+8AA4 (unknown error), the default of \<open>res.get('message', ...)\<close>.\<close>

definition unknown_error_text :: pystr where
  "unknown_error_text = [0x672A, 0x77E5, 0x932F, 0x8AA4]"

text \<open>
  \<open>api_key\<close> is \<open>OPENWEATHER_API_KEY\<close> (\<open>None\<close> when the variable is not set), and
  \<open>get_weather_cached\<close> is the request to the weather service, a function of the city name
  sent. \<open>analysis.get("recent_constitution", ...)\<close> finds the key in the analysis proper only.
\<close>

definition weather_constitution_advice ::
  "pystr option \<Rightarrow> (pystr \<Rightarrow> weather) \<Rightarrow> pystr \<Rightarrow> pystr \<Rightarrow> manager \<Rightarrow> weather_reply" where
  "weather_constitution_advice api_key get_weather_cached current_user_id city m =
     (if api_key = None \<or> api_key = Some [] then Missing_api_key
      else
        (let city_query = dict_get CITY_NAME_MAP (py_strip city) (py_strip city);
             res = get_weather_cached city_query
         in if cod res \<noteq> Some 200
            then Lookup_failed (case message res of None \<Rightarrow> unknown_error_text | Some t \<Rightarrow> t)
            else
              (let humidity' = humidity res;
                   temperature = temp res;
                   desc = description res;
                   constitution' = (case get_constitution_analysis current_user_id m of
                                      Analysis a \<Rightarrow> recent_constitution a
                                    | _ \<Rightarrow> unknown_text);
                   advice1 = [Title, Conditions city temperature humidity' desc constitution',
                              Theory_note];
                   advice2 = advice1 @
                     (if humidity' > 75
                      then Dampness_block humidity' #
                           (if constitution' = spleen_dampness then [Spleen_dampness_clause]
                            else if constitution' = damp_heat then [Damp_heat_clause]
                            else [])
                      else []);
                   advice3 = advice2 @
                     (if temperature > 30 then [Heat_block temperature]
                      else if temperature < 15 then [Cold_block temperature]
                      else [])
               in Weather_advice (advice3 @ [Closing]))))"

section \<open>Sample data\<close>

text \<open>
  The data of the scenarios: the user \<open>u1\<close>, the store of a first start, and what two
  calls read from outside, the second later than the first.
\<close>

definition u1 :: pystr where
  "u1 = ascii ''u1''"

definition empty_manager :: manager where
  "empty_manager = \<lparr>users = [], saved = []\<rparr>"

definition env1 :: ambient where
  "env1 = \<lparr>uuid4 = ascii ''3f2b8c1e-7a4d-4c55-9e21-5d0c6b7a8f90'',
            now_created = ascii ''2024-05-01T09:30:00.120117'',
            now_date = ascii ''2024-05-01T09:30:00.120431'',
            now_info = ascii ''2024-05-01 09:30''\<rparr>"

definition env2 :: ambient where
  "env2 = \<lparr>uuid4 = ascii ''b81d4fae-7dec-41d0-a765-00a0c91e6bf6'',
            now_created = ascii ''2024-05-02T18:05:41.000250'',
            now_date = ascii ''2024-05-02T18:05:41.000377'',
            now_info = ascii ''2024-05-02 18:05''\<rparr>"

text \<open>
  Two calls for \<open>u1\<close>: the first is the scenario of the specification (the key
  U+820C U+982D U+6709 U+7D05 U+9EDE with the symptoms U+53E3 U+4E7E and U+5931 U+7720), the
  second records another constitution the next day.
\<close>

definition two_calls :: "call list" where
  "two_calls =
     [(u1, env1, key_red_dots, tizhi info_red_dots, Some [[0x53E3, 0x4E7E], [0x5931, 0x7720]]),
      (u1, env2, key_teeth_marks, tizhi info_teeth_marks, None)]"

text \<open>
  Two calls for \<open>u1\<close> whose clock readings are the same (only the identifiers differ).
\<close>

definition same_time_calls :: "call list" where
  "same_time_calls =
     [(u1, env1, key_red_dots, tizhi info_red_dots, None),
      (u1, env1\<lparr>uuid4 := uuid4 env2\<rparr>, key_teeth_marks, tizhi info_teeth_marks, None)]"

text \<open>
  The weather scenario: a service that answers every city with humidity 80 and temperature
  32, and a store where the latest record of \<open>u1\<close> has the constitution damp heat.
\<close>

definition humid_hot :: "pystr \<Rightarrow> weather" where
  "humid_hot city_name =
     \<lparr>cod = Some 200, message = None, humidity = 80, temp = 32,
      description = [0x591A, 0x96F2]\<rparr>"

definition damp_heat_manager :: manager where
  "damp_heat_manager =
     \<lparr>users = [(u1, \<lparr>name = [], age = 0, gender = [], created_at = now_created env1,
                      tongue_records = [new_record env1 key_thick_yellow_coating damp_heat None],
                      constitution_trends = [(damp_heat, 1)], preferences = []\<rparr>)],
      saved = []\<rparr>"

section \<open>Properties of the user store\<close>

lemma py_slice_to_Nil: "py_slice_to limit [] = []"
  by (simp add: py_slice_to_def)

lemma py_sorted_reverse_Nil: "py_sorted_reverse f [] = []"
  by (simp add: py_sorted_reverse_def)

lemma sum_update_count:
  "sum_list (map snd (AList.update k (dict_get d k 0 + 1) d)) = sum_list (map snd d) + (1::int)"
  by (induction d) (auto simp add: dict_get_def)

lemma add_tongue_record_result:
  "\<exists>m'. add_tongue_record env uid tt c sy m = Inr (uuid4 env, m') \<and>
        map_of (users m') =
          (map_of (users m))(uid \<mapsto>
             (let u = (case map_of (users m) uid of
                         None \<Rightarrow> \<lparr>name = [], age = 0, gender = [], created_at = now_created env,
                                  tongue_records = [], constitution_trends = [], preferences = []\<rparr>
                       | Some u \<Rightarrow> u)
              in u\<lparr>tongue_records := tongue_records u @ [new_record env tt c sy],
                    constitution_trends :=
                      AList.update c (dict_get (constitution_trends u) c 0 + 1) (constitution_trends u)\<rparr>))"
proof (cases "map_of (users m) uid")
  case None
  then show ?thesis
    by (auto simp add: add_tongue_record_def create_user_def save_data_def
        update_constitution_trends_def Let_def update_conv' map_of_map_entry new_record_def
        fun_eq_iff)
next
  case (Some u)
  then show ?thesis
    by (auto simp add: add_tongue_record_def create_user_def save_data_def
        update_constitution_trends_def Let_def update_conv' map_of_map_entry new_record_def
        fun_eq_iff)
qed

lemma create_user_lookup:
  "map_of (users (snd (create_user now uid n a g m))) uid' =
     (if uid' = uid \<and> map_of (users m) uid = None
      then Some \<lparr>name = n, age = a, gender = g, created_at = now, tongue_records = [],
                 constitution_trends = [], preferences = []\<rparr>
      else map_of (users m) uid')"
  by (simp add: create_user_def save_data_def update_conv')

lemma reachable_inv:
  "reachable m \<Longrightarrow> map_of (users m) uid = Some u \<Longrightarrow>
     sum_list (map snd (constitution_trends u)) = int (length (tongue_records u)) \<and>
     (tongue_records u = [] \<longrightarrow> constitution_trends u = [])"
proof (induction arbitrary: uid u rule: reachable.induct)
  case start
  then show ?case by simp
next
  case (created m now user_id name' age' gender')
  then show ?case
    by (auto simp add: create_user_lookup split: if_splits)
next
  case (added m env user_id tt c sy rid m')
  from add_tongue_record_result [of env user_id tt c sy m] added.hyps(2)
  have look: "map_of (users m') =
          (map_of (users m))(user_id \<mapsto>
             (let u = (case map_of (users m) user_id of
                         None \<Rightarrow> \<lparr>name = [], age = 0, gender = [], created_at = now_created env,
                                  tongue_records = [], constitution_trends = [], preferences = []\<rparr>
                       | Some u \<Rightarrow> u)
              in u\<lparr>tongue_records := tongue_records u @ [new_record env tt c sy],
                    constitution_trends :=
                      AList.update c (dict_get (constitution_trends u) c 0 + 1) (constitution_trends u)\<rparr>))"
    by auto
  show ?case
  proof (cases "uid = user_id")
    case False
    with added.prems look have "map_of (users m) uid = Some u" by simp
    then show ?thesis by (rule added.IH)
  next
    case True
    show ?thesis
    proof (cases "map_of (users m) user_id")
      case None
      with True added.prems look show ?thesis
        by (auto simp add: Let_def dict_get_def)
    next
      case (Some u0)
      from added.IH [OF Some] have "sum_list (map snd (constitution_trends u0)) = int (length (tongue_records u0))"
        by simp
      with Some True added.prems look show ?thesis
        by (auto simp add: Let_def sum_update_count)
    qed
  qed
qed

lemma py_max_key_snoc:
  "py_max_key f x (xs @ [y]) = (if f (py_max_key f x xs) < f y then y else py_max_key f x xs)"
  by (simp add: py_max_key_def)

lemma find_snoc:
  "find P (xs @ [y]) = (case find P xs of None \<Rightarrow> (if P y then Some y else None) | Some a \<Rightarrow> Some a)"
  by (induction xs) simp_all

lemma py_max_key_first:
  "(\<forall>z\<in>set (x # xs). f z \<le> f (py_max_key f x xs)) \<and>
   find (\<lambda>z. f z = f (py_max_key f x xs)) (x # xs) = Some (py_max_key f x xs)"
proof (induction xs rule: rev_induct)
  case Nil
  show ?case by (simp add: py_max_key_def)
next
  case (snoc y xs)
  let ?b = "py_max_key f x xs"
  from snoc have le: "\<forall>z\<in>set (x # xs). f z \<le> f ?b"
    and first: "find (\<lambda>z. f z = f ?b) (x # xs) = Some ?b"
    by simp_all
  show ?case
  proof (cases "f ?b < f y")
    case True
    with le have none: "\<forall>z\<in>set (x # xs). f z \<noteq> f y" by auto
    then have "find (\<lambda>z. f z = f y) (x # xs) = None"
      by (simp only: find_None_iff) blast
    with find_snoc [of "\<lambda>z. f z = f y" "x # xs" y]
    have "find (\<lambda>z. f z = f y) (x # xs @ [y]) = Some y"
      by (simp del: find.simps)
    moreover from True le have "\<forall>z\<in>set (x # xs @ [y]). f z \<le> f y" by auto
    ultimately show ?thesis using True by (simp add: py_max_key_snoc)
  next
    case False
    from first find_snoc [of "\<lambda>z. f z = f ?b" "x # xs" y]
    have "find (\<lambda>z. f z = f ?b) (x # xs @ [y]) = Some ?b"
      by (simp del: find.simps)
    moreover from False le have "\<forall>z\<in>set (x # xs @ [y]). f z \<le> f ?b" by auto
    ultimately show ?thesis using False by (simp add: py_max_key_snoc)
  qed
qed

lemma py_max_key_index:
  "\<exists>i<length (x # xs). py_max_key f x xs = (x # xs) ! i \<and>
      f ((x # xs) ! i) = Max (f ` set (x # xs)) \<and>
      (\<forall>j<i. f ((x # xs) ! j) < f ((x # xs) ! i))"
proof -
  let ?b = "py_max_key f x xs"
  from py_max_key_first [of x xs f]
  have le: "\<forall>z\<in>set (x # xs). f z \<le> f ?b"
    and first: "find (\<lambda>z. f z = f ?b) (x # xs) = Some ?b"
    by simp_all
  from first obtain i where i: "i < length (x # xs)" "?b = (x # xs) ! i"
    and before: "\<forall>j<i. f ((x # xs) ! j) \<noteq> f ?b"
    unfolding find_Some_iff by blast
  from i have mem: "?b \<in> set (x # xs)" by (metis nth_mem)
  have "Max (f ` set (x # xs)) = f ?b"
  proof (rule Max_eqI)
    show "finite (f ` set (x # xs))" by simp
    show "\<And>v. v \<in> f ` set (x # xs) \<Longrightarrow> v \<le> f ?b" using le by auto
    show "f ?b \<in> f ` set (x # xs)" using mem by blast
  qed
  moreover have "\<forall>j<i. f ((x # xs) ! j) < f ((x # xs) ! i)"
  proof (intro allI impI)
    fix j assume "j < i"
    with i have "(x # xs) ! j \<in> set (x # xs)" by (metis nth_mem less_trans)
    with le have "f ((x # xs) ! j) \<le> f ?b" by blast
    moreover from before \<open>j < i\<close> have "f ((x # xs) ! j) \<noteq> f ?b" by blast
    ultimately show "f ((x # xs) ! j) < f ((x # xs) ! i)" using i by simp
  qed
  ultimately show ?thesis using i by auto
qed

lemma insort_key_last: "\<forall>y\<in>set xs. f y < f x \<Longrightarrow> insort_key f x xs = xs @ [x]"
  by (induction xs) auto

lemma sort_key_rev_strict: "sorted_wrt (<) (map f xs) \<Longrightarrow> sort_key f (rev xs) = xs"
proof (induction xs rule: rev_induct)
  case Nil
  show ?case by simp
next
  case (snoc x xs)
  from snoc.prems have pre: "sorted_wrt (<) (map f xs)" and lt: "\<forall>y\<in>set xs. f y < f x"
    by (auto simp add: sorted_wrt_append)
  from snoc.IH [OF pre] lt show ?case by (simp add: insort_key_last)
qed

lemma py_sorted_reverse_strict:
  "sorted_wrt (<) (map f xs) \<Longrightarrow> py_sorted_reverse f xs = rev xs"
  by (simp add: py_sorted_reverse_def sort_key_rev_strict)

lemma py_sorted_reverse_mset: "mset (py_sorted_reverse f xs) = mset xs"
  by (simp add: py_sorted_reverse_def)

lemma py_sorted_reverse_length: "length (py_sorted_reverse f xs) = length xs"
  by (simp add: py_sorted_reverse_def)

lemma py_sorted_reverse_sorted: "sorted_wrt (\<lambda>a b. f b \<le> f a) (py_sorted_reverse f xs)"
proof -
  have "sorted (map f (sort_key f (rev xs)))" by simp
  then have "sorted_wrt (\<lambda>a b. f a \<le> f b) (sort_key f (rev xs))"
    by (simp only: sorted_map)
  then show ?thesis by (simp add: py_sorted_reverse_def sorted_wrt_rev)
qed

lemma py_sorted_reverse_stable:
  "filter (\<lambda>y. f y = k) (py_sorted_reverse f xs) = filter (\<lambda>y. f y = k) xs"
  by (simp add: py_sorted_reverse_def rev_filter [symmetric] sort_key_stable)

lemma py_slice_to_length: "py_slice_to (int (length xs)) xs = xs"
  by (simp add: py_slice_to_def)

lemma add_tongue_record_returns:
  "\<exists>m'. add_tongue_record env uid tt c sy m = Inr (uuid4 env, m')"
  using add_tongue_record_result [of env uid tt c sy m] by blast

lemma add_tongue_record_rid:
  "add_tongue_record env uid tt c sy m = Inr (rid, m') \<Longrightarrow> rid = uuid4 env"
  using add_tongue_record_result [of env uid tt c sy m] by auto

lemma add_tongue_record_records:
  assumes "add_tongue_record env uid tt c sy m = Inr (rid, m')"
  shows "records_of m' v =
           (if v = uid then records_of m uid @ [new_record env tt c sy] else records_of m v)"
  using add_tongue_record_result [of env uid tt c sy m] assms
  by (auto simp add: records_of_def Let_def split: option.splits)

lemma add_tongue_record_trends:
  assumes "add_tongue_record env uid tt c sy m = Inr (rid, m')"
  shows "trends_of m' v =
           (if v = uid
            then AList.update c (dict_get (trends_of m uid) c 0 + 1) (trends_of m uid)
            else trends_of m v)"
  using add_tongue_record_result [of env uid tt c sy m] assms
  by (auto simp add: trends_of_def Let_def split: option.splits)

lemma dict_get_update:
  "dict_get (AList.update k v d) k' dflt = (if k' = k then v else dict_get d k' dflt)"
  by (simp add: dict_get_def update_conv')

lemma reachable_sum:
  assumes "reachable m"
  shows "sum_list (map snd (trends_of m uid)) = int (length (records_of m uid))"
proof (cases "map_of (users m) uid")
  case None
  then show ?thesis by (simp add: trends_of_def records_of_def)
next
  case (Some u)
  with reachable_inv [OF assms Some] show ?thesis
    by (simp add: trends_of_def records_of_def)
qed

lemma get_user_history_records_of:
  "get_user_history uid limit m = py_slice_to limit (py_sorted_reverse date (records_of m uid))"
  by (simp add: get_user_history_def records_of_def py_slice_to_Nil py_sorted_reverse_Nil
      split: option.splits)

lemma get_constitution_analysis_records_of:
  assumes "records_of m uid \<noteq> []"
  shows "\<exists>a. get_constitution_analysis uid m = Analysis a \<and>
             total_records a = int (length (records_of m uid)) \<and>
             recent_constitution a = constitution (last (records_of m uid))"
  using assms
  by (auto simp add: get_constitution_analysis_def records_of_def Let_def split: option.splits)

lemma add_records_result:
  "\<exists>m'. add_records calls m = Inr m' \<and>
        (\<forall>v. records_of m' v = records_of m v @ map record_of (filter (\<lambda>c. fst c = v) calls))"
proof (induction calls arbitrary: m)
  case Nil
  show ?case by simp
next
  case (Cons call calls)
  obtain uid env tt c sy where call: "call = (uid, env, tt, c, sy)"
    by (cases call) auto
  obtain m1 where m1: "add_tongue_record env uid tt c sy m = Inr (uuid4 env, m1)"
    using add_tongue_record_returns by blast
  from Cons.IH [of m1] obtain m' where m': "add_records calls m1 = Inr m'"
    and recs: "\<forall>v. records_of m' v = records_of m1 v @ map record_of (filter (\<lambda>c. fst c = v) calls)"
    by blast
  have "add_records (call # calls) m = Inr m'"
    by (simp add: call m1 m')
  moreover have "\<forall>v. records_of m' v =
      records_of m v @ map record_of (filter (\<lambda>c. fst c = v) (call # calls))"
    using recs by (simp add: call add_tongue_record_records [OF m1])
  ultimately show ?case by blast
qed

text \<open>
  C3: calling \<open>create_user\<close> twice with the same id, on a store that does not hold the id,
  returns \<open>True\<close> the first time and \<open>False\<close> the second time, and the second call changes
  nothing: the manager after it is the manager before it, so that the user still has the
  \<open>created_at\<close> and every other field that the first call wrote.
\<close>

theorem create_user_twice:
  assumes "map_of (users m) uid = None"
    and "create_user now1 uid n1 a1 g1 m = (r1, m1)"
    and "create_user now2 uid n2 a2 g2 m1 = (r2, m2)"
  shows "r1 \<and> \<not> r2 \<and> m2 = m1 \<and>
         map_of (users m2) uid =
           Some \<lparr>name = n1, age = a1, gender = g1, created_at = now1, tongue_records = [],
                 constitution_trends = [], preferences = []\<rparr>"
proof -
  from assms(1,2) have r1: "r1"
    and m1: "m1 = save_data (m\<lparr>users := AList.update uid
              \<lparr>name = n1, age = a1, gender = g1, created_at = now1,
               tongue_records = [], constitution_trends = [], preferences = []\<rparr> (users m)\<rparr>)"
    by (simp_all add: create_user_def)
  have present: "map_of (users m1) uid =
           Some \<lparr>name = n1, age = a1, gender = g1, created_at = now1, tongue_records = [],
                 constitution_trends = [], preferences = []\<rparr>"
    by (simp add: m1 save_data_def update_conv')
  with assms(3) have "\<not> r2" and "m2 = m1"
    by (auto simp add: create_user_def)
  with r1 present show ?thesis by simp
qed

theorem create_user_twice_witness:
  "map_of (users \<lparr>users = [], saved = []\<rparr>) [0x75, 0x31] = None \<and>
   fst (create_user [0x32, 0x30] [0x75, 0x31] [0x41] 30 [0x46] \<lparr>users = [], saved = []\<rparr>) \<and>
   \<not> fst (create_user [0x32, 0x31] [0x75, 0x31] [0x42] 31 [0x4D]
            (snd (create_user [0x32, 0x30] [0x75, 0x31] [0x41] 30 [0x46] \<lparr>users = [], saved = []\<rparr>))) \<and>
   map_option created_at (map_of (users (snd (create_user [0x32, 0x31] [0x75, 0x31] [0x42] 31 [0x4D]
            (snd (create_user [0x32, 0x30] [0x75, 0x31] [0x41] 30 [0x46] \<lparr>users = [], saved = []\<rparr>)))))
        [0x75, 0x31]) = Some [0x32, 0x30]"
  using create_user_twice [of "\<lparr>users = [], saved = []\<rparr>" "[0x75, 0x31]" "[0x32, 0x30]" "[0x41]" 30 "[0x46]"
      "fst (create_user [0x32, 0x30] [0x75, 0x31] [0x41] 30 [0x46] \<lparr>users = [], saved = []\<rparr>)"
      "snd (create_user [0x32, 0x30] [0x75, 0x31] [0x41] 30 [0x46] \<lparr>users = [], saved = []\<rparr>)"
      "[0x32, 0x31]" "[0x42]" 31 "[0x4D]"
      "fst (create_user [0x32, 0x31] [0x75, 0x31] [0x42] 31 [0x4D]
            (snd (create_user [0x32, 0x30] [0x75, 0x31] [0x41] 30 [0x46] \<lparr>users = [], saved = []\<rparr>)))"
      "snd (create_user [0x32, 0x31] [0x75, 0x31] [0x42] 31 [0x4D]
            (snd (create_user [0x32, 0x30] [0x75, 0x31] [0x41] 30 [0x46] \<lparr>users = [], saved = []\<rparr>)))"]
  by (simp add: create_user_def save_data_def)

text \<open>
  C8: \<open>get_constitution_analysis\<close> is a total function with three kinds of result and
  no exception among them. For an id that the store does not hold it returns the error result
  (the user does not exist); for a stored user with no records it returns the message result
  (no record to analyse yet), which is a different value; for a stored user with records it
  returns the analysis, whose fields are read from the user's records and frequency map.
\<close>

theorem get_constitution_analysis_cases:
  "(map_of (users m) uid = None \<longrightarrow> get_constitution_analysis uid m = Error user_missing_text) \<and>
   (\<forall>u. map_of (users m) uid = Some u \<and> tongue_records u = [] \<longrightarrow>
        get_constitution_analysis uid m = Message no_records_text) \<and>
   (\<forall>u. map_of (users m) uid = Some u \<and> tongue_records u \<noteq> [] \<longrightarrow>
        (\<exists>a. get_constitution_analysis uid m = Analysis a \<and>
             recent_constitution a = constitution (last (tongue_records u)) \<and>
             constitution_frequency a = constitution_trends u \<and>
             recent_trend a = map constitution (drop (length (tongue_records u) - 5) (tongue_records u)) \<and>
             total_records a = int (length (tongue_records u)))) \<and>
   Error user_missing_text \<noteq> Message no_records_text"
  by (simp add: get_constitution_analysis_def Let_def)

theorem get_constitution_analysis_cases_witness:
  "get_constitution_analysis u1 empty_manager = Error user_missing_text \<and>
   get_constitution_analysis u1 (snd (create_user (now_created env1) u1 [] 0 [] empty_manager))
     = Message no_records_text \<and>
   (\<exists>m a. add_tongue_record env1 u1 key_red_dots (tizhi info_red_dots) None empty_manager
            = Inr (uuid4 env1, m) \<and>
          get_constitution_analysis u1 m = Analysis a \<and> total_records a = 1 \<and>
          recent_constitution a = tizhi info_red_dots)"
proof -
  have absent: "map_of (users empty_manager) u1 = None"
    by (simp add: empty_manager_def)
  let ?m1 = "snd (create_user (now_created env1) u1 [] 0 [] empty_manager)"
  let ?u = "\<lparr>name = [], age = 0, gender = [], created_at = now_created env1,
             tongue_records = [], constitution_trends = [], preferences = []\<rparr>"
  have created: "map_of (users ?m1) u1 = Some ?u \<and> tongue_records ?u = []"
    by (simp add: create_user_lookup absent)
  obtain m where m: "add_tongue_record env1 u1 key_red_dots (tizhi info_red_dots) None empty_manager
            = Inr (uuid4 env1, m)"
    using add_tongue_record_returns by blast
  have "records_of empty_manager u1 = []"
    by (simp add: records_of_def absent)
  then have recs: "records_of m u1 = [new_record env1 key_red_dots (tizhi info_red_dots) None]"
    by (simp add: add_tongue_record_records [OF m])
  then obtain u where u: "map_of (users m) u1 = Some u"
    and ru: "tongue_records u = [new_record env1 key_red_dots (tizhi info_red_dots) None]"
    by (auto simp add: records_of_def split: option.splits)
  from get_constitution_analysis_cases [of empty_manager u1] absent
  have c1: "get_constitution_analysis u1 empty_manager = Error user_missing_text"
    by blast
  from get_constitution_analysis_cases [of ?m1 u1] created
  have c2: "get_constitution_analysis u1 ?m1 = Message no_records_text"
    by blast
  from get_constitution_analysis_cases [of m u1] u ru
  obtain a where "get_constitution_analysis u1 m = Analysis a"
    and "recent_constitution a = constitution (last (tongue_records u))"
    and "total_records a = int (length (tongue_records u))"
    by auto
  with ru have "get_constitution_analysis u1 m = Analysis a \<and> total_records a = 1 \<and>
          recent_constitution a = tizhi info_red_dots"
    by (simp add: new_record_def)
  with m c1 c2 show ?thesis by blast
qed

text \<open>
  C10: for an id that the store does not hold, \<open>get_user_history\<close> returns the empty list
  for every limit, and the formatted history is the fixed text for an empty history. A stored
  user without records gets the same formatted history from any store, so the history path
  does not tell an unknown user from one without records.
\<close>

theorem history_unknown_user:
  assumes "map_of (users m) uid = None"
  shows "get_user_history uid limit m = [] \<and>
         get_user_history_formatted uid m = No_history no_history_text \<and>
         (\<forall>m' uid' u. map_of (users m') uid' = Some u \<and> tongue_records u = [] \<longrightarrow>
            get_user_history_formatted uid' m' = get_user_history_formatted uid m)"
  using assms
  by (simp add: get_user_history_def get_user_history_formatted_def py_slice_to_Nil
      py_sorted_reverse_Nil)

theorem history_unknown_user_witness:
  "map_of (users empty_manager) u1 = None \<and>
   get_user_history u1 10 empty_manager = [] \<and>
   get_user_history_formatted u1 empty_manager = No_history no_history_text \<and>
   get_user_history_formatted u1 (snd (create_user (now_created env1) u1 [] 0 [] empty_manager))
     = get_user_history_formatted u1 empty_manager"
proof -
  have absent: "map_of (users empty_manager) u1 = None"
    by (simp add: empty_manager_def)
  let ?m1 = "snd (create_user (now_created env1) u1 [] 0 [] empty_manager)"
  let ?u = "\<lparr>name = [], age = 0, gender = [], created_at = now_created env1,
             tongue_records = [], constitution_trends = [], preferences = []\<rparr>"
  have created: "map_of (users ?m1) u1 = Some ?u \<and> tongue_records ?u = []"
    by (simp add: create_user_lookup absent)
  from history_unknown_user [OF absent, of 10] created
  have "get_user_history u1 10 empty_manager = [] \<and>
        get_user_history_formatted u1 empty_manager = No_history no_history_text \<and>
        get_user_history_formatted u1 ?m1 = get_user_history_formatted u1 empty_manager"
    by blast
  with absent show ?thesis by blast
qed

text \<open>
  C2: for a user whose frequency map is not empty, in a store that the program reaches from
  the empty one (or in any store where the user has a record), the analysis reports as most
  frequent constitution the key at a position \<open>i\<close> of the frequency map whose count is the
  maximum of all counts, and every position before \<open>i\<close> has a smaller count: among
  the keys with the maximal count it is the first in insertion order.
\<close>

theorem most_common_is_first_maximum:
  assumes "map_of (users m) uid = Some u"
    and "constitution_trends u \<noteq> []"
    and "reachable m \<or> tongue_records u \<noteq> []"
  shows "\<exists>a i. get_constitution_analysis uid m = Analysis a \<and>
           constitution_frequency a = constitution_trends u \<and>
           i < length (constitution_trends u) \<and>
           most_common_constitution a = fst (constitution_trends u ! i) \<and>
           snd (constitution_trends u ! i) = Max (snd ` set (constitution_trends u)) \<and>
           (\<forall>j<i. snd (constitution_trends u ! j) < snd (constitution_trends u ! i))"
proof -
  from assms reachable_inv [of m uid u] have recs: "tongue_records u \<noteq> []"
    by blast
  from assms(2) obtain item items where trends: "constitution_trends u = item # items"
    by (cases "constitution_trends u") auto
  from py_max_key_index [of item items snd]
  obtain i where i: "i < length (item # items)"
    and best: "py_max_key snd item items = (item # items) ! i"
    and top: "snd ((item # items) ! i) = Max (snd ` set (item # items))"
    and first: "\<forall>j<i. snd ((item # items) ! j) < snd ((item # items) ! i)"
    by blast
  have "\<exists>a. get_constitution_analysis uid m = Analysis a \<and>
          constitution_frequency a = item # items \<and>
          most_common_constitution a = fst (py_max_key snd item items)"
    using assms(1) recs trends by (simp add: get_constitution_analysis_def Let_def)
  with i best top first trends show ?thesis by auto
qed

lemma reachable_empty: "reachable empty_manager"
  unfolding empty_manager_def by (rule reachable.start)

lemma two_calls_run:
  "\<exists>m1 m. add_tongue_record env1 u1 key_red_dots (tizhi info_red_dots)
              (Some [[0x53E3, 0x4E7E], [0x5931, 0x7720]]) empty_manager = Inr (uuid4 env1, m1) \<and>
          add_tongue_record env2 u1 key_teeth_marks (tizhi info_teeth_marks) None m1
            = Inr (uuid4 env2, m) \<and>
          add_records two_calls empty_manager = Inr m \<and> reachable m \<and> reachable m1"
proof -
  obtain m1 where m1: "add_tongue_record env1 u1 key_red_dots (tizhi info_red_dots)
              (Some [[0x53E3, 0x4E7E], [0x5931, 0x7720]]) empty_manager = Inr (uuid4 env1, m1)"
    using add_tongue_record_returns by blast
  obtain m where m: "add_tongue_record env2 u1 key_teeth_marks (tizhi info_teeth_marks) None m1
            = Inr (uuid4 env2, m)"
    using add_tongue_record_returns by blast
  have "add_records two_calls empty_manager = Inr m"
    by (simp add: two_calls_def m1 m)
  moreover have r1: "reachable m1"
    by (rule reachable.added [OF reachable_empty m1])
  moreover have "reachable m"
    by (rule reachable.added [OF r1 m])
  ultimately show ?thesis using m1 m by blast
qed

lemma records_of_empty: "records_of empty_manager v = []"
  by (simp add: records_of_def empty_manager_def)

lemma trends_of_empty: "trends_of empty_manager v = []"
  by (simp add: trends_of_def empty_manager_def)

theorem most_common_is_first_maximum_witness:
  "\<exists>m u a. add_records two_calls empty_manager = Inr m \<and> reachable m \<and>
       map_of (users m) u1 = Some u \<and>
       constitution_trends u = [(tizhi info_red_dots, 1), (tizhi info_teeth_marks, 1)] \<and>
       get_constitution_analysis u1 m = Analysis a \<and>
       most_common_constitution a = tizhi info_red_dots"
proof -
  from two_calls_run obtain m1 m
    where m1: "add_tongue_record env1 u1 key_red_dots (tizhi info_red_dots)
              (Some [[0x53E3, 0x4E7E], [0x5931, 0x7720]]) empty_manager = Inr (uuid4 env1, m1)"
      and m: "add_tongue_record env2 u1 key_teeth_marks (tizhi info_teeth_marks) None m1
            = Inr (uuid4 env2, m)"
      and run: "add_records two_calls empty_manager = Inr m"
      and reach: "reachable m"
    by blast
  have t1: "trends_of m1 u1 = [(tizhi info_red_dots, 1)]"
    by (simp add: add_tongue_record_trends [OF m1] trends_of_empty dict_get_def)
  have t2: "trends_of m u1 = [(tizhi info_red_dots, 1), (tizhi info_teeth_marks, 1)]"
    by (simp add: add_tongue_record_trends [OF m] t1 dict_get_def info_red_dots_def
        info_teeth_marks_def)
  then obtain u where u: "map_of (users m) u1 = Some u"
    and tu: "constitution_trends u = [(tizhi info_red_dots, 1), (tizhi info_teeth_marks, 1)]"
    by (auto simp add: trends_of_def split: option.splits)
  from tu have ne: "constitution_trends u \<noteq> []" by simp
  from most_common_is_first_maximum [OF u ne disjI1 [OF reach]]
  obtain a i where a: "get_constitution_analysis u1 m = Analysis a"
    and i: "i < length (constitution_trends u)"
    and mc: "most_common_constitution a = fst (constitution_trends u ! i)"
    and first: "\<forall>j<i. snd (constitution_trends u ! j) < snd (constitution_trends u ! i)"
    by blast
  have "i = 0"
  proof (rule ccontr)
    assume "i \<noteq> 0"
    with i tu have "i = 1" by simp
    with first have "snd (constitution_trends u ! 0) < snd (constitution_trends u ! 1)"
      by simp
    with tu show False by simp
  qed
  with mc tu have "most_common_constitution a = tizhi info_red_dots" by simp
  with run reach u tu a show ?thesis by blast
qed

text \<open>
  C5: in every store that the program reaches from the empty one, the counts of a user's
  frequency map add up to the number of the user's records (both are zero for an id the store
  does not hold). A call of \<open>add_tongue_record\<close> on such a store returns, appends exactly one
  record to the user's list, raises the counter of the given constitution by one and no
  other counter, so that the sum grows by one and equals the new number of records; the
  records and counters of every other user stay as they are.
\<close>

theorem trend_counts_sum_to_record_count:
  assumes "reachable m"
  shows "sum_list (map snd (trends_of m uid)) = int (length (records_of m uid)) \<and>
         (\<exists>m'. add_tongue_record env v tt c sy m = Inr (uuid4 env, m') \<and> reachable m' \<and>
            records_of m' v = records_of m v @ [new_record env tt c sy] \<and>
            (\<forall>k. dict_get (trends_of m' v) k 0 =
                   dict_get (trends_of m v) k 0 + (if k = c then 1 else 0)) \<and>
            sum_list (map snd (trends_of m' v)) = sum_list (map snd (trends_of m v)) + 1 \<and>
            sum_list (map snd (trends_of m' v)) = int (length (records_of m' v)) \<and>
            (\<forall>w. w \<noteq> v \<longrightarrow> records_of m' w = records_of m w \<and> trends_of m' w = trends_of m w))"
proof -
  obtain m' where m': "add_tongue_record env v tt c sy m = Inr (uuid4 env, m')"
    using add_tongue_record_returns by blast
  have reach: "reachable m'"
    by (rule reachable.added [OF assms m'])
  have recs: "records_of m' v = records_of m v @ [new_record env tt c sy]"
    by (simp add: add_tongue_record_records [OF m'])
  have counts: "\<forall>k. dict_get (trends_of m' v) k 0 =
                   dict_get (trends_of m v) k 0 + (if k = c then 1 else 0)"
    by (simp add: add_tongue_record_trends [OF m'] dict_get_update)
  have total: "sum_list (map snd (trends_of m' v)) = sum_list (map snd (trends_of m v)) + 1"
    by (simp add: add_tongue_record_trends [OF m'] sum_update_count)
  have others: "\<forall>w. w \<noteq> v \<longrightarrow> records_of m' w = records_of m w \<and> trends_of m' w = trends_of m w"
    by (simp add: add_tongue_record_trends [OF m'] add_tongue_record_records [OF m'])
  from reachable_sum [OF assms] reachable_sum [OF reach] m' reach recs counts total others
  show ?thesis by blast
qed

theorem trend_counts_sum_to_record_count_witness:
  "\<exists>m1 m. add_tongue_record env1 u1 key_red_dots (tizhi info_red_dots)
              (Some [[0x53E3, 0x4E7E], [0x5931, 0x7720]]) empty_manager = Inr (uuid4 env1, m1) \<and>
      reachable m1 \<and>
      sum_list (map snd (trends_of m1 u1)) = 1 \<and> length (records_of m1 u1) = 1 \<and>
      add_tongue_record env2 u1 key_teeth_marks (tizhi info_teeth_marks) None m1
        = Inr (uuid4 env2, m) \<and>
      sum_list (map snd (trends_of m u1)) = 2 \<and> length (records_of m u1) = 2"
proof -
  from two_calls_run obtain m1 m2
    where m1: "add_tongue_record env1 u1 key_red_dots (tizhi info_red_dots)
              (Some [[0x53E3, 0x4E7E], [0x5931, 0x7720]]) empty_manager = Inr (uuid4 env1, m1)"
      and r1: "reachable m1"
    by blast
  have l1: "length (records_of m1 u1) = 1"
    by (simp add: add_tongue_record_records [OF m1] records_of_empty)
  from trend_counts_sum_to_record_count [OF r1, of u1 env2 u1 key_teeth_marks
      "tizhi info_teeth_marks" None]
  obtain m where s1: "sum_list (map snd (trends_of m1 u1)) = int (length (records_of m1 u1))"
    and m: "add_tongue_record env2 u1 key_teeth_marks (tizhi info_teeth_marks) None m1
        = Inr (uuid4 env2, m)"
    and r2: "records_of m u1 = records_of m1 u1 @ [new_record env2 key_teeth_marks (tizhi info_teeth_marks) None]"
    and s2: "sum_list (map snd (trends_of m u1)) = int (length (records_of m u1))"
    by blast
  from r2 l1 have l2: "length (records_of m u1) = 2" by simp
  from m1 r1 s1 l1 m s2 l2 show ?thesis by auto
qed

text \<open>
  C4 (amended): take a store where the user has no records (the id unknown, or just created)
  and any list of \<open>add_tongue_record\<close> calls, \<open>N\<close> of them for the user. The calls all
  return, and \<open>get_user_history\<close> with the limit \<open>N\<close> then returns exactly the \<open>N\<close>
  records of these calls, ordered by date from the latest to the earliest, records of the same
  date in the order of the calls; when the dates strictly increase from call to call this is
  the reverse of the order of the calls. When \<open>N\<close> is at least 1,
  \<open>get_constitution_analysis\<close> reports \<open>total_records = N\<close>. For \<open>N = 0\<close> it returns the
  error or message result instead, and two records of the same date are not returned in
  reverse order: the counterexample shows both.
\<close>

theorem history_after_appends:
  fixes calls :: "call list" and uid :: pystr
  defines "recs \<equiv> map record_of (filter (\<lambda>c. fst c = uid) calls)"
  assumes "records_of before uid = []"
  shows "\<exists>m. add_records calls before = Inr m \<and>
           get_user_history uid (int (length recs)) m = py_sorted_reverse date recs \<and>
           mset (get_user_history uid (int (length recs)) m) = mset recs \<and>
           sorted_wrt (\<lambda>a b. date b \<le> date a) (get_user_history uid (int (length recs)) m) \<and>
           (\<forall>d. filter (\<lambda>r. date r = d) (get_user_history uid (int (length recs)) m)
                  = filter (\<lambda>r. date r = d) recs) \<and>
           (sorted_wrt (<) (map date recs) \<longrightarrow>
              get_user_history uid (int (length recs)) m = rev recs) \<and>
           (recs \<noteq> [] \<longrightarrow>
              (\<exists>a. get_constitution_analysis uid m = Analysis a \<and>
                   total_records a = int (length recs)))"
proof -
  from add_records_result [of calls before] obtain m where run: "add_records calls before = Inr m"
    and "records_of m uid = records_of before uid @ recs"
    unfolding recs_def by blast
  with assms have stored: "records_of m uid = recs" by simp
  have "length (py_sorted_reverse date recs) = length recs"
    by (rule py_sorted_reverse_length)
  with py_slice_to_length [of "py_sorted_reverse date recs"]
  have "py_slice_to (int (length recs)) (py_sorted_reverse date recs) = py_sorted_reverse date recs"
    by simp
  with stored have h: "get_user_history uid (int (length recs)) m = py_sorted_reverse date recs"
    by (simp add: get_user_history_records_of)
  have total: "recs \<noteq> [] \<longrightarrow>
              (\<exists>a. get_constitution_analysis uid m = Analysis a \<and>
                   total_records a = int (length recs))"
    using get_constitution_analysis_records_of [of m uid] stored by auto
  from run h total show ?thesis
    by (auto simp add: py_sorted_reverse_mset py_sorted_reverse_sorted py_sorted_reverse_stable
        py_sorted_reverse_strict)
qed

theorem history_after_appends_witness:
  "records_of empty_manager u1 = [] \<and>
   (\<exists>m. add_records two_calls empty_manager = Inr m \<and>
        get_user_history u1 2 m =
          [new_record env2 key_teeth_marks (tizhi info_teeth_marks) None,
           new_record env1 key_red_dots (tizhi info_red_dots)
             (Some [[0x53E3, 0x4E7E], [0x5931, 0x7720]])] \<and>
        (\<exists>a. get_constitution_analysis u1 m = Analysis a \<and> total_records a = 2))"
proof -
  have recs: "map record_of (filter (\<lambda>c. fst c = u1) two_calls) =
          [new_record env1 key_red_dots (tizhi info_red_dots)
             (Some [[0x53E3, 0x4E7E], [0x5931, 0x7720]]),
           new_record env2 key_teeth_marks (tizhi info_teeth_marks) None]"
    by (simp add: two_calls_def)
  have rising: "sorted_wrt (<) (map date (map record_of (filter (\<lambda>c. fst c = u1) two_calls)))"
    by (simp add: recs new_record_def env1_def env2_def ascii_def)
  from history_after_appends [where before = empty_manager and uid = u1 and calls = two_calls,
      OF records_of_empty] rising
  obtain m where "add_records two_calls empty_manager = Inr m"
    and "get_user_history u1 (int (length (map record_of (filter (\<lambda>c. fst c = u1) two_calls)))) m
           = rev (map record_of (filter (\<lambda>c. fst c = u1) two_calls))"
    and "\<exists>a. get_constitution_analysis u1 m = Analysis a \<and>
           total_records a = int (length (map record_of (filter (\<lambda>c. fst c = u1) two_calls)))"
    by (auto simp add: recs)
  then show ?thesis
    by (auto simp add: recs records_of_empty)
qed

theorem history_after_appends_counterexample:
  "add_records [] empty_manager = Inr empty_manager \<and>
   get_constitution_analysis u1 empty_manager = Error user_missing_text \<and>
   get_constitution_analysis u1 (snd (create_user (now_created env1) u1 [] 0 [] empty_manager))
     = Message no_records_text \<and>
   get_user_history u1 2 (projr (add_records same_time_calls empty_manager))
     = map record_of same_time_calls \<and>
   map record_of same_time_calls \<noteq> rev (map record_of same_time_calls)"
proof -
  have absent: "map_of (users empty_manager) u1 = None"
    by (simp add: empty_manager_def)
  have c1: "get_constitution_analysis u1 empty_manager = Error user_missing_text"
    by (simp add: get_constitution_analysis_def absent)
  have c2: "get_constitution_analysis u1
              (snd (create_user (now_created env1) u1 [] 0 [] empty_manager))
            = Message no_records_text"
    by (simp add: get_constitution_analysis_def create_user_lookup absent)
  from add_records_result [of same_time_calls empty_manager]
  obtain m where run: "add_records same_time_calls empty_manager = Inr m"
    and stored: "records_of m u1 = map record_of (filter (\<lambda>c. fst c = u1) same_time_calls)"
    by (auto simp add: records_of_empty)
  have all: "filter (\<lambda>c. fst c = u1) same_time_calls = same_time_calls"
    by (simp add: same_time_calls_def)
  have "get_user_history u1 2 m = map record_of same_time_calls"
    by (simp add: get_user_history_records_of stored all same_time_calls_def py_slice_to_def
        py_sorted_reverse_def new_record_def)
  with run have c3: "get_user_history u1 2 (projr (add_records same_time_calls empty_manager))
     = map record_of same_time_calls"
    by simp
  have c4: "map record_of same_time_calls \<noteq> rev (map record_of same_time_calls)"
    by (simp add: same_time_calls_def new_record_def env1_def env2_def ascii_def)
  from c1 c2 c3 c4 show ?thesis by simp
qed

lemma py_in_sublist: "py_in s t \<longleftrightarrow> sublist s t"
  by (induction t) (simp_all add: sublist_Cons_right)

lemma matches_profile_iff:
  "matches_profile info s \<longleftrightarrow> (\<exists>expected\<in>set (zhengzhuang info). sublist s expected)"
  by (simp add: matches_profile_def list_ex_iff py_in_sublist)


lemma py_split_not_Nil: "py_split sep s \<noteq> []"
  by (induction s) (auto split: list.splits)

lemma parse_input_returns: "\<exists>tt syms. parse_input s = Inr (tt, syms)"
  using py_split_not_Nil [of "0x7C" s]
  by (cases "py_split 0x7C s") (auto simp add: parse_input_def)




lemma database_keys_set: "set (map fst TONGUE_DATABASE) = {k. map_of TONGUE_DATABASE k \<noteq> None}"
  by (auto simp add: map_of_eq_None_iff)


lemma analysis_of_recognised_input:
  assumes "\<not> (input_str = [] \<or> (0x7C \<notin> set input_str \<and> map_of TONGUE_DATABASE input_str = None))"
    and "parse_input input_str = Inr (tt, syms)"
    and "map_of TONGUE_DATABASE tt = Some info"
  shows "\<exists>m'. add_tongue_record env cur tt (tizhi info) (Some syms) m = Inr (uuid4 env, m') \<and>
          enhanced_tongue_analysis env cur input_str m =
            (Analysis_text (take 8 (uuid4 env)) tt info
               (if syms \<noteq> [] then Some (filter (matches_profile info) syms,
                                         filter (\<lambda>s. \<not> matches_profile info s) syms)
                else None), m')"
proof -
  obtain m' where m': "add_tongue_record env cur tt (tizhi info) (Some syms) m = Inr (uuid4 env, m')"
    using add_tongue_record_returns by blast
  with assms show ?thesis
    by (simp add: enhanced_tongue_analysis_def Let_def)
qed

text \<open>
  C1 (amended): when the input names a key of the table, every symptom that the user gave is
  classified as matching the profile exactly when the user's symptom occurs as a contiguous
  run inside some symptom of the profile (\<open>s in expected\<close>), and as unmatched otherwise; the
  two lists are reported when at least one symptom was given. The direction is the opposite
  of the one in the claim: the counterexample gives the key U+820C U+982D U+6709 U+7D05 U+9EDE
  with the symptom U+53E3 U+4E7E U+820C U+71E5, which contains the profile's symptom
  U+53E3 U+4E7E and is reported as unmatched.
\<close>

theorem symptom_matching_direction:
  assumes "\<not> (input_str = [] \<or> (0x7C \<notin> set input_str \<and> map_of TONGUE_DATABASE input_str = None))"
    and "parse_input input_str = Inr (tt, syms)"
    and "map_of TONGUE_DATABASE tt = Some info"
  shows "\<exists>m'. enhanced_tongue_analysis env cur input_str m =
            (Analysis_text (take 8 (uuid4 env)) tt info
               (if syms \<noteq> []
                then Some (filter (\<lambda>s. \<exists>expected\<in>set (zhengzhuang info). sublist s expected) syms,
                           filter (\<lambda>s. \<not> (\<exists>expected\<in>set (zhengzhuang info). sublist s expected)) syms)
                else None), m')"
proof -
  have eq: "matches_profile info = (\<lambda>s. \<exists>expected\<in>set (zhengzhuang info). sublist s expected)"
    by (rule ext) (rule matches_profile_iff)
  from analysis_of_recognised_input [OF assms, of env cur m] show ?thesis
    unfolding eq by blast
qed

lemma dry_mouth_input:
  "parse_input (key_red_dots @ [0x7C, 0x53E3, 0x4E7E, 0x820C, 0x71E5]) =
     Inr (key_red_dots, [[0x53E3, 0x4E7E, 0x820C, 0x71E5]])"
  by (simp add: parse_input_def key_red_dots_def py_strip_def isspace_def)

lemma red_dots_lookup: "map_of TONGUE_DATABASE key_red_dots = Some info_red_dots"
  by (simp add: TONGUE_DATABASE_def)

theorem symptom_matching_direction_counterexample:
  "fst (enhanced_tongue_analysis env1 u1 (key_red_dots @ [0x7C, 0x53E3, 0x4E7E, 0x820C, 0x71E5])
          empty_manager) =
     Analysis_text (take 8 (uuid4 env1)) key_red_dots info_red_dots
       (Some ([], [[0x53E3, 0x4E7E, 0x820C, 0x71E5]])) \<and>
   [0x53E3, 0x4E7E] \<in> set (zhengzhuang info_red_dots) \<and>
   sublist [0x53E3, 0x4E7E] [0x53E3, 0x4E7E, 0x820C, 0x71E5]"
proof -
  have guard: "\<not> (key_red_dots @ [0x7C, 0x53E3, 0x4E7E, 0x820C, 0x71E5] = [] \<or>
      (0x7C \<notin> set (key_red_dots @ [0x7C, 0x53E3, 0x4E7E, 0x820C, 0x71E5]) \<and>
       map_of TONGUE_DATABASE (key_red_dots @ [0x7C, 0x53E3, 0x4E7E, 0x820C, 0x71E5]) = None))"
    by simp
  have none: "\<not> matches_profile info_red_dots [0x53E3, 0x4E7E, 0x820C, 0x71E5]"
    by (simp add: matches_profile_def info_red_dots_def)
  from analysis_of_recognised_input [OF guard dry_mouth_input red_dots_lookup, of env1 u1 empty_manager]
  have "fst (enhanced_tongue_analysis env1 u1 (key_red_dots @ [0x7C, 0x53E3, 0x4E7E, 0x820C, 0x71E5])
          empty_manager) =
     Analysis_text (take 8 (uuid4 env1)) key_red_dots info_red_dots
       (Some ([], [[0x53E3, 0x4E7E, 0x820C, 0x71E5]]))"
    using none by auto
  moreover have "[0x53E3, 0x4E7E] \<in> set (zhengzhuang info_red_dots)"
    by (simp add: info_red_dots_def)
  moreover have "sublist [0x53E3, 0x4E7E] [0x53E3, 0x4E7E, 0x820C, 0x71E5]"
    by (simp add: py_in_sublist [symmetric])
  ultimately show ?thesis by blast
qed

theorem symptom_matching_direction_witness:
  "\<exists>m'. enhanced_tongue_analysis env1 u1
          (key_red_dots @ [0x7C, 0x53E3, 0x2C, 0x20, 0x5931, 0x7720, 0x2C, 0x53E3, 0x4E7E, 0x820C, 0x71E5])
          empty_manager =
        (Analysis_text (take 8 (uuid4 env1)) key_red_dots info_red_dots
           (Some ([[0x53E3], [0x5931, 0x7720]], [[0x53E3, 0x4E7E, 0x820C, 0x71E5]])), m')"
proof -
  let ?input = "key_red_dots @ [0x7C, 0x53E3, 0x2C, 0x20, 0x5931, 0x7720, 0x2C, 0x53E3, 0x4E7E, 0x820C, 0x71E5]"
  let ?syms = "[[0x53E3], [0x5931, 0x7720], [0x53E3, 0x4E7E, 0x820C, 0x71E5]] :: pystr list"
  have guard: "\<not> (?input = [] \<or>
      (0x7C \<notin> set ?input \<and> map_of TONGUE_DATABASE ?input = None))"
    by simp
  have parsed: "parse_input ?input = Inr (key_red_dots, ?syms)"
    by (simp add: parse_input_def key_red_dots_def py_strip_def isspace_def)
  have f1: "filter (\<lambda>s. \<exists>expected\<in>set (zhengzhuang info_red_dots). sublist s expected) ?syms =
      [[0x53E3], [0x5931, 0x7720]]"
    by (simp add: py_in_sublist [symmetric] info_red_dots_def)
  have f2: "filter (\<lambda>s. \<not> (\<exists>expected\<in>set (zhengzhuang info_red_dots). sublist s expected)) ?syms =
      [[0x53E3, 0x4E7E, 0x820C, 0x71E5]]"
    by (simp add: py_in_sublist [symmetric] info_red_dots_def)
  from symptom_matching_direction [OF guard parsed red_dots_lookup, of env1 u1 empty_manager]
  show ?thesis unfolding f1 f2 by simp
qed

lemma recognised_input_is_recorded:
  assumes "\<not> (input_str = [] \<or> (0x7C \<notin> set input_str \<and> map_of TONGUE_DATABASE input_str = None) \<or>
      (\<exists>tt syms. parse_input input_str = Inr (tt, syms) \<and> map_of TONGUE_DATABASE tt = None))"
  shows "\<exists>tt syms info sec m'. parse_input input_str = Inr (tt, syms) \<and>
      map_of TONGUE_DATABASE tt = Some info \<and>
      enhanced_tongue_analysis env cur input_str m =
        (Analysis_text (take 8 (uuid4 env)) tt info sec, m') \<and>
      records_of m' cur = records_of m cur @ [new_record env tt (tizhi info) (Some syms)]"
proof -
  from parse_input_returns obtain tt syms where parsed: "parse_input input_str = Inr (tt, syms)"
    by blast
  with assms obtain info where info: "map_of TONGUE_DATABASE tt = Some info"
    by auto
  from assms have guard: "\<not> (input_str = [] \<or>
      (0x7C \<notin> set input_str \<and> map_of TONGUE_DATABASE input_str = None))"
    by blast
  from analysis_of_recognised_input [OF guard parsed info, of env cur m]
  obtain m' where add: "add_tongue_record env cur tt (tizhi info) (Some syms) m = Inr (uuid4 env, m')"
    and reply: "enhanced_tongue_analysis env cur input_str m =
            (Analysis_text (take 8 (uuid4 env)) tt info
               (if syms \<noteq> [] then Some (filter (matches_profile info) syms,
                                         filter (\<lambda>s. \<not> matches_profile info s) syms)
                else None), m')"
    by blast
  from add have "records_of m' cur = records_of m cur @ [new_record env tt (tizhi info) (Some syms)]"
    by (simp add: add_tongue_record_records)
  with parsed info reply show ?thesis by blast
qed


lemma abc_unknown: "map_of TONGUE_DATABASE (ascii ''abc'') = None"
  by (simp add: TONGUE_DATABASE_def ascii_def key_red_dots_def key_red_tip_and_sides_def
      key_teeth_marks_def key_fissures_def key_thick_yellow_coating_def
      key_thick_white_coating_def key_pale_red_thin_white_def)


lemma rejected_input_unchanged:
  assumes "input_str = [] \<or> (0x7C \<notin> set input_str \<and> map_of TONGUE_DATABASE input_str = None) \<or>
      (\<exists>tt syms. parse_input input_str = Inr (tt, syms) \<and> map_of TONGUE_DATABASE tt = None)"
  shows "\<exists>r. enhanced_tongue_analysis env cur input_str m = (r, m) \<and>
           (r = Format_error (map fst TONGUE_DATABASE) \<or>
            (\<exists>tt. r = Not_listed tt (map fst TONGUE_DATABASE))) \<and>
           set (map fst TONGUE_DATABASE) = {k. map_of TONGUE_DATABASE k \<noteq> None}"
proof (cases "input_str = [] \<or> (0x7C \<notin> set input_str \<and> map_of TONGUE_DATABASE input_str = None)")
  case True
  then have "enhanced_tongue_analysis env cur input_str m =
      (Format_error (map fst TONGUE_DATABASE), m)"
    by (simp add: enhanced_tongue_analysis_def)
  with database_keys_set show ?thesis by blast
next
  case False
  with assms obtain tt syms where "parse_input input_str = Inr (tt, syms)"
    and "map_of TONGUE_DATABASE tt = None"
    by blast
  with False have "enhanced_tongue_analysis env cur input_str m =
      (Not_listed tt (map fst TONGUE_DATABASE), m)"
    by (simp add: enhanced_tongue_analysis_def)
  with database_keys_set show ?thesis by blast
qed

lemma two_separators_input:
  "parse_input (key_red_dots @ [0x7C, 0x53E3, 0x4E7E, 0x7C, 0x5931, 0x7720]) =
     Inr (key_red_dots, [[0x53E3, 0x4E7E]])"
  by (simp add: parse_input_def key_red_dots_def py_strip_def isspace_def)

lemma two_separators_recorded:
  "\<exists>m'. enhanced_tongue_analysis env1 u1
          (key_red_dots @ [0x7C, 0x53E3, 0x4E7E, 0x7C, 0x5931, 0x7720]) empty_manager =
        (Analysis_text (take 8 (uuid4 env1)) key_red_dots info_red_dots
           (Some ([[0x53E3, 0x4E7E]], [])), m') \<and>
      records_of m' u1 = [new_record env1 key_red_dots (tizhi info_red_dots) (Some [[0x53E3, 0x4E7E]])]"
proof -
  let ?input = "key_red_dots @ [0x7C, 0x53E3, 0x4E7E, 0x7C, 0x5931, 0x7720]"
  have guard: "\<not> (?input = [] \<or> (0x7C \<notin> set ?input \<and> map_of TONGUE_DATABASE ?input = None))"
    by simp
  have hit: "matches_profile info_red_dots [0x53E3, 0x4E7E]"
    by (simp add: matches_profile_def info_red_dots_def)
  from analysis_of_recognised_input [OF guard two_separators_input red_dots_lookup,
      of env1 u1 empty_manager]
  obtain m' where add: "add_tongue_record env1 u1 key_red_dots (tizhi info_red_dots)
        (Some [[0x53E3, 0x4E7E]]) empty_manager = Inr (uuid4 env1, m')"
    and reply: "enhanced_tongue_analysis env1 u1 ?input empty_manager =
        (Analysis_text (take 8 (uuid4 env1)) key_red_dots info_red_dots
           (Some ([[0x53E3, 0x4E7E]], [])), m')"
    using hit by auto
  from add have "records_of m' u1 =
      [new_record env1 key_red_dots (tizhi info_red_dots) (Some [[0x53E3, 0x4E7E]])]"
    by (simp add: add_tongue_record_records records_of_empty)
  with reply show ?thesis by blast
qed

text \<open>
  C7 (amended): the analysis rejects exactly three kinds of input: the empty input, an input
  without separator that is not a key, and an input whose part before the first separator,
  stripped, is not a key. On each of them the result carries the list of all keys of the
  table, and the manager returned is the manager given: no record, no counter, no user and no
  save. Every other input, also one that is malformed after a known key (a second separator,
  an empty symptom), is analysed and recorded, so that the store changes: the counterexample
  gives the key U+820C U+982D U+6709 U+7D05 U+9EDE followed by two separated symptom parts.
\<close>

theorem format_errors_leave_store_unchanged:
  fixes input_str :: pystr
  defines "rejected \<equiv>
      input_str = [] \<or> (0x7C \<notin> set input_str \<and> map_of TONGUE_DATABASE input_str = None) \<or>
      (\<exists>tt syms. parse_input input_str = Inr (tt, syms) \<and> map_of TONGUE_DATABASE tt = None)"
  shows "(rejected \<longrightarrow>
           (\<exists>r. enhanced_tongue_analysis env cur input_str m = (r, m) \<and>
                (r = Format_error (map fst TONGUE_DATABASE) \<or>
                 (\<exists>tt. r = Not_listed tt (map fst TONGUE_DATABASE))) \<and>
                set (map fst TONGUE_DATABASE) = {k. map_of TONGUE_DATABASE k \<noteq> None})) \<and>
         (\<not> rejected \<longrightarrow>
           (\<exists>tt syms info sec m'. parse_input input_str = Inr (tt, syms) \<and>
                map_of TONGUE_DATABASE tt = Some info \<and>
                enhanced_tongue_analysis env cur input_str m =
                  (Analysis_text (take 8 (uuid4 env)) tt info sec, m') \<and>
                records_of m' cur =
                  records_of m cur @ [new_record env tt (tizhi info) (Some syms)] \<and>
                m' \<noteq> m))"
proof (intro conjI impI)
  assume rejected
  then show "\<exists>r. enhanced_tongue_analysis env cur input_str m = (r, m) \<and>
                (r = Format_error (map fst TONGUE_DATABASE) \<or>
                 (\<exists>tt. r = Not_listed tt (map fst TONGUE_DATABASE))) \<and>
                set (map fst TONGUE_DATABASE) = {k. map_of TONGUE_DATABASE k \<noteq> None}"
    unfolding rejected_def by (rule rejected_input_unchanged)
next
  assume "\<not> rejected"
  then have "\<exists>tt syms info sec m'. parse_input input_str = Inr (tt, syms) \<and>
      map_of TONGUE_DATABASE tt = Some info \<and>
      enhanced_tongue_analysis env cur input_str m =
        (Analysis_text (take 8 (uuid4 env)) tt info sec, m') \<and>
      records_of m' cur = records_of m cur @ [new_record env tt (tizhi info) (Some syms)]"
    unfolding rejected_def by (rule recognised_input_is_recorded)
  then obtain tt syms info sec m' where parsed: "parse_input input_str = Inr (tt, syms)"
    and info: "map_of TONGUE_DATABASE tt = Some info"
    and reply: "enhanced_tongue_analysis env cur input_str m =
        (Analysis_text (take 8 (uuid4 env)) tt info sec, m')"
    and recs: "records_of m' cur = records_of m cur @ [new_record env tt (tizhi info) (Some syms)]"
    by blast
  from recs have "m' \<noteq> m" by auto
  with parsed info reply recs
  show "\<exists>tt syms info sec m'. parse_input input_str = Inr (tt, syms) \<and>
                map_of TONGUE_DATABASE tt = Some info \<and>
                enhanced_tongue_analysis env cur input_str m =
                  (Analysis_text (take 8 (uuid4 env)) tt info sec, m') \<and>
                records_of m' cur =
                  records_of m cur @ [new_record env tt (tizhi info) (Some syms)] \<and>
                m' \<noteq> m"
    by blast
qed

theorem format_errors_leave_store_unchanged_witness:
  "enhanced_tongue_analysis env1 u1 [] damp_heat_manager =
     (Format_error (map fst TONGUE_DATABASE), damp_heat_manager) \<and>
   enhanced_tongue_analysis env1 u1 (ascii ''abc'') damp_heat_manager =
     (Format_error (map fst TONGUE_DATABASE), damp_heat_manager) \<and>
   enhanced_tongue_analysis env1 u1 (ascii ''abc|x,y'') damp_heat_manager =
     (Not_listed (ascii ''abc'') (map fst TONGUE_DATABASE), damp_heat_manager) \<and>
   (\<exists>sec m'. enhanced_tongue_analysis env1 u1
        (key_red_dots @ [0x7C, 0x53E3, 0x4E7E, 0x7C, 0x5931, 0x7720]) damp_heat_manager =
          (Analysis_text (take 8 (uuid4 env1)) key_red_dots info_red_dots sec, m') \<and>
        records_of m' u1 = records_of damp_heat_manager u1 @
          [new_record env1 key_red_dots (tizhi info_red_dots) (Some [[0x53E3, 0x4E7E]])] \<and>
        m' \<noteq> damp_heat_manager)"
proof -
  have nosep: "0x7C \<notin> set (ascii ''abc'')"
    by (simp add: ascii_def)
  have parsed: "parse_input (ascii ''abc|x,y'') = Inr (ascii ''abc'', [ascii ''x'', ascii ''y''])"
    by (simp add: parse_input_def ascii_def py_strip_def isspace_def)
  have sep: "ascii ''abc|x,y'' \<noteq> [] \<and> 0x7C \<in> set (ascii ''abc|x,y'')"
    by (simp add: ascii_def)
  have e1: "fst (enhanced_tongue_analysis env1 u1 [] damp_heat_manager) =
      Format_error (map fst TONGUE_DATABASE)"
    by (simp add: enhanced_tongue_analysis_def)
  have e2: "fst (enhanced_tongue_analysis env1 u1 (ascii ''abc'') damp_heat_manager) =
      Format_error (map fst TONGUE_DATABASE)"
    using nosep abc_unknown by (simp add: enhanced_tongue_analysis_def)
  have e3: "fst (enhanced_tongue_analysis env1 u1 (ascii ''abc|x,y'') damp_heat_manager) =
      Not_listed (ascii ''abc'') (map fst TONGUE_DATABASE)"
    using sep parsed abc_unknown by (simp add: enhanced_tongue_analysis_def)
  from format_errors_leave_store_unchanged [where input_str = "[]" and env = env1 and cur = u1
      and m = damp_heat_manager]
  have s1: "snd (enhanced_tongue_analysis env1 u1 [] damp_heat_manager) = damp_heat_manager"
    by auto
  from format_errors_leave_store_unchanged [where input_str = "ascii ''abc''" and env = env1
      and cur = u1 and m = damp_heat_manager] nosep abc_unknown
  have s2: "snd (enhanced_tongue_analysis env1 u1 (ascii ''abc'') damp_heat_manager) =
      damp_heat_manager"
    by auto
  from format_errors_leave_store_unchanged [where input_str = "ascii ''abc|x,y''" and env = env1
      and cur = u1 and m = damp_heat_manager] parsed abc_unknown
  have s3: "snd (enhanced_tongue_analysis env1 u1 (ascii ''abc|x,y'') damp_heat_manager) =
      damp_heat_manager"
    by auto
  let ?input = "key_red_dots @ [0x7C, 0x53E3, 0x4E7E, 0x7C, 0x5931, 0x7720]"
  have accepted: "\<not> (?input = [] \<or>
      (0x7C \<notin> set ?input \<and> map_of TONGUE_DATABASE ?input = None) \<or>
      (\<exists>tt syms. parse_input ?input = Inr (tt, syms) \<and> map_of TONGUE_DATABASE tt = None))"
    by (simp add: two_separators_input red_dots_lookup)
  from format_errors_leave_store_unchanged [where input_str = ?input and env = env1
      and cur = u1 and m = damp_heat_manager] accepted
  have s4: "\<exists>sec m'. enhanced_tongue_analysis env1 u1 ?input damp_heat_manager =
          (Analysis_text (take 8 (uuid4 env1)) key_red_dots info_red_dots sec, m') \<and>
        records_of m' u1 = records_of damp_heat_manager u1 @
          [new_record env1 key_red_dots (tizhi info_red_dots) (Some [[0x53E3, 0x4E7E]])] \<and>
        m' \<noteq> damp_heat_manager"
    by (auto simp add: two_separators_input red_dots_lookup)
  from e1 e2 e3 s1 s2 s3 have "enhanced_tongue_analysis env1 u1 [] damp_heat_manager =
     (Format_error (map fst TONGUE_DATABASE), damp_heat_manager) \<and>
   enhanced_tongue_analysis env1 u1 (ascii ''abc'') damp_heat_manager =
     (Format_error (map fst TONGUE_DATABASE), damp_heat_manager) \<and>
   enhanced_tongue_analysis env1 u1 (ascii ''abc|x,y'') damp_heat_manager =
     (Not_listed (ascii ''abc'') (map fst TONGUE_DATABASE), damp_heat_manager)"
    by (simp add: prod_eq_iff)
  with s4 show ?thesis by blast
qed

theorem format_errors_leave_store_unchanged_counterexample:
  "fst (enhanced_tongue_analysis env1 u1
          (key_red_dots @ [0x7C, 0x53E3, 0x4E7E, 0x7C, 0x5931, 0x7720]) empty_manager) =
     Analysis_text (take 8 (uuid4 env1)) key_red_dots info_red_dots
       (Some ([[0x53E3, 0x4E7E]], [])) \<and>
   records_of (snd (enhanced_tongue_analysis env1 u1
          (key_red_dots @ [0x7C, 0x53E3, 0x4E7E, 0x7C, 0x5931, 0x7720]) empty_manager)) u1 =
     [new_record env1 key_red_dots (tizhi info_red_dots) (Some [[0x53E3, 0x4E7E]])] \<and>
   records_of empty_manager u1 = [] \<and>
   snd (enhanced_tongue_analysis env1 u1
          (key_red_dots @ [0x7C, 0x53E3, 0x4E7E, 0x7C, 0x5931, 0x7720]) empty_manager)
     \<noteq> empty_manager"
proof -
  from two_separators_recorded obtain m'
    where reply: "enhanced_tongue_analysis env1 u1
          (key_red_dots @ [0x7C, 0x53E3, 0x4E7E, 0x7C, 0x5931, 0x7720]) empty_manager =
        (Analysis_text (take 8 (uuid4 env1)) key_red_dots info_red_dots
           (Some ([[0x53E3, 0x4E7E]], [])), m')"
      and recs: "records_of m' u1 =
        [new_record env1 key_red_dots (tizhi info_red_dots) (Some [[0x53E3, 0x4E7E]])]"
    by blast
  from recs have "m' \<noteq> empty_manager"
    by (auto simp add: records_of_empty)
  with reply recs show ?thesis
    by (simp add: records_of_empty)
qed

lemma constitutions_differ: "spleen_dampness \<noteq> damp_heat"
  by (simp add: spleen_dampness_def damp_heat_def)

text \<open>
  C9: when the API key is set and the weather service answers with \<open>cod = 200\<close>, the advice
  is a list of blocks in which the block on dampness occurs exactly when the humidity is above
  75, the block on summer heat exactly when the temperature is above 30 and the block on cold
  exactly when the temperature is below 15; the clause for damp heat occurs exactly when the
  humidity is above 75 and the user's latest constitution is damp heat, and likewise the
  clause for spleen deficiency with dampness. The witness is the scenario: humidity 80,
  temperature 32 and a user whose latest constitution is damp heat give the dampness block,
  the damp heat clause and the heat block, and no cold block.
\<close>

theorem weather_advice_thresholds:
  assumes "api_key = Some key" and "key \<noteq> []"
    and "res = get_weather_cached (dict_get CITY_NAME_MAP (py_strip city) (py_strip city))"
    and "cod res = Some 200"
    and "c = (case get_constitution_analysis cur m of
                Analysis a \<Rightarrow> recent_constitution a | _ \<Rightarrow> unknown_text)"
  shows "\<exists>blocks. weather_constitution_advice api_key get_weather_cached cur city m
                    = Weather_advice blocks \<and>
      ((\<exists>h. Dampness_block h \<in> set blocks) \<longleftrightarrow> 75 < humidity res) \<and>
      (Dampness_block (humidity res) \<in> set blocks \<longleftrightarrow> 75 < humidity res) \<and>
      (Damp_heat_clause \<in> set blocks \<longleftrightarrow> 75 < humidity res \<and> c = damp_heat) \<and>
      (Spleen_dampness_clause \<in> set blocks \<longleftrightarrow> 75 < humidity res \<and> c = spleen_dampness) \<and>
      ((\<exists>t. Heat_block t \<in> set blocks) \<longleftrightarrow> 30 < temp res) \<and>
      (Heat_block (temp res) \<in> set blocks \<longleftrightarrow> 30 < temp res) \<and>
      ((\<exists>t. Cold_block t \<in> set blocks) \<longleftrightarrow> temp res < 15) \<and>
      (Cold_block (temp res) \<in> set blocks \<longleftrightarrow> temp res < 15)"
  using assms constitutions_differ
  by (auto simp add: weather_constitution_advice_def Let_def)

theorem weather_advice_thresholds_witness:
  "\<exists>blocks. weather_constitution_advice (Some (ascii ''key'')) humid_hot u1 [0x53F0, 0x5317]
               damp_heat_manager = Weather_advice blocks \<and>
     Dampness_block 80 \<in> set blocks \<and> Damp_heat_clause \<in> set blocks \<and>
     Heat_block 32 \<in> set blocks \<and> \<not> (\<exists>t. Cold_block t \<in> set blocks)"
proof -
  have key: "ascii ''key'' \<noteq> []"
    by (simp add: ascii_def)
  let ?res = "humid_hot (dict_get CITY_NAME_MAP (py_strip [0x53F0, 0x5317]) (py_strip [0x53F0, 0x5317]))"
  have ok: "cod ?res = Some 200" and h: "humidity ?res = 80" and t: "temp ?res = 32"
    by (simp_all add: humid_hot_def)
  have c: "damp_heat = (case get_constitution_analysis u1 damp_heat_manager of
                Analysis a \<Rightarrow> recent_constitution a | _ \<Rightarrow> unknown_text)"
    by (simp add: get_constitution_analysis_def damp_heat_manager_def new_record_def Let_def)
  from weather_advice_thresholds [where api_key = "Some (ascii ''key'')" and key = "ascii ''key''"
      and get_weather_cached = humid_hot and city = "[0x53F0, 0x5317]" and res = ?res
      and c = damp_heat and cur = u1 and m = damp_heat_manager, OF refl key refl ok c]
  have "\<exists>blocks. weather_constitution_advice (Some (ascii ''key'')) humid_hot u1 [0x53F0, 0x5317]
               damp_heat_manager = Weather_advice blocks \<and>
     (Dampness_block 80 \<in> set blocks) = ((75::int) < 80) \<and>
     (Damp_heat_clause \<in> set blocks) = ((75::int) < 80 \<and> damp_heat = damp_heat) \<and>
     (Heat_block 32 \<in> set blocks) = ((30::rat) < 32) \<and>
     (\<exists>t. Cold_block t \<in> set blocks) = ((32::rat) < 15)"
    unfolding h t by blast
  then show ?thesis by simp
qed

end
